theory Spec2Isabelle
  imports Complex_Main "HOL-Library.Sublist"
begin

section \<open>The download-and-delivery pipeline of the media saver bot\<close>

text \<open>
  This theory embeds \<^verbatim>\<open>handle_url\<close> of \<^verbatim>\<open>bot.py\<close> and the rows of \<^verbatim>\<open>models.py\<close> it
  writes. The handler is exception-driven Python that talks to several collaborators:
  the URL classifier, the five downloaders, the file system, the chat transport and the
  persistence service. None of the collaborators is part of the sources, so each one is a
  field of an environment record: a function for the classifier and the downloaders, an
  outcome (some exception text, or none) for every call that can raise. The handler itself
  is translated statement by statement; every \<^verbatim>\<open>raise\<close>, every \<^verbatim>\<open>except\<close> clause and every
  exception that leaves the handler is a branch of the model.

  Strings are byte strings in UTF-8. \<^verbatim>\<open>str.lower\<close> is modelled on ASCII: the keywords the
  handler searches for are ASCII, in UTF-8 no byte of a character beyond ASCII is an ASCII
  byte, and no character beyond ASCII has a lower case that completes one of the keywords.
\<close>

subsection \<open>Rows of the persistence layer (\<^verbatim>\<open>models.py\<close>)\<close>

text \<open>The columns of \<^verbatim>\<open>User\<close>; the handler reads \<^verbatim>\<open>user_id\<close> only. Time stamps are left out.\<close>

record user =
  user_id :: int
  username :: "string option"
  first_name :: "string option"
  last_name :: "string option"
  language_code :: "string option"
  is_premium :: bool

text \<open>The columns of \<^verbatim>\<open>Download\<close>, prefixed with \<open>d_\<close>; \<open>d_file_size\<close> is in megabytes.\<close>

record download =
  d_user_id :: int
  d_url :: string
  d_source_type :: string
  d_file_size :: "real option"
  d_status :: string
  d_error_message :: "string option"

subsection \<open>Exceptions, events and the state\<close>

text \<open>
  An exception is the text \<^verbatim>\<open>str(e)\<close> together with the one distinction the handler makes:
  whether it is a \<^verbatim>\<open>DownloadError\<close> or any other \<^verbatim>\<open>Exception\<close>.
\<close>

datatype exn = DownloadError string | OtherError string

datatype platform = Youtube | Instagram | Tiktok | Twitter | Facebook

datatype keyboard = Keyboard string

datatype level = INFO | WARNING | ERROR

text \<open>One constructor for each \<^verbatim>\<open>logger\<close> call of the handler, with the values it formats.\<close>

datatype log_msg =
    Received_URL string
  | Invalid_URL_rejected string
  | Failed_to_get_or_create_user
  | Database_error_when_creating_user string
  | Attempting_to_download string string
  | Successfully_downloaded real
  | Video_successfully_sent
  | Failed_to_record_successful_download string
  | Error_sending_video string
  | Failed_to_record_failed_download string
  | Temporary_files_cleaned_up
  | Failed_to_clean_up string
  | Download_error string
  | Failed_to_record_download string
  | Unexpected_error string

text \<open>Every call to a collaborator, in the order the handler makes it.\<close>

datatype event =
    Log level log_msg
  | Reply_text string
  | Get_or_create_user
  | Call_downloader platform string
  | Path_exists string bool
  | Get_size string nat
  | Open_file string
  | Get_donation_keyboard string
  | Reply_video string string "keyboard option"
  | Record_download download
  | Delete_processing
  | Os_remove string
  | Os_rmdir string
  | Edit_text string

type_synonym files = "string \<rightharpoonup> nat"

record state =
  trace :: "event list"
  db :: "download list"
  files :: files

text \<open>
  The collaborators and the constants of \<^verbatim>\<open>config\<close>. A downloader returns a path or
  \<^verbatim>\<open>None\<close>, or raises, and may change the files; the file map gives the size in bytes of
  every existing file. \<open>file_not_found\<close> is the text of the \<^verbatim>\<open>FileNotFoundError\<close> the
  platform raises for a path.
\<close>

record env =
  INVALID_URL_MESSAGE :: string
  PROCESSING_MESSAGE :: string
  ERROR_MESSAGE :: string
  DOWNLOAD_SUCCESS_MESSAGE :: string
  DONATION_URL :: string
  get_url_type :: "string \<Rightarrow> string option"
  get_or_create_user :: "string + user option"
  download_youtube_video :: "string \<Rightarrow> files \<Rightarrow> (exn + string option) \<times> files"
  download_instagram_video :: "string \<Rightarrow> files \<Rightarrow> (exn + string option) \<times> files"
  download_tiktok_video :: "string \<Rightarrow> files \<Rightarrow> (exn + string option) \<times> files"
  download_twitter_video :: "string \<Rightarrow> files \<Rightarrow> (exn + string option) \<times> files"
  download_facebook_video :: "string \<Rightarrow> files \<Rightarrow> (exn + string option) \<times> files"
  get_donation_keyboard :: "string \<Rightarrow> string + keyboard option"
  reply_text_fault :: "string \<Rightarrow> string option"
  reply_video_fault :: "string \<Rightarrow> string option"
  edit_text_fault :: "string \<Rightarrow> string option"
  delete_fault :: "string option"
  open_fault :: "string \<Rightarrow> string option"
  remove_fault :: "string \<Rightarrow> string option"
  rmdir_fault :: "string \<Rightarrow> string option"
  file_not_found :: "string \<Rightarrow> string"
  gettempdir :: string
  recorder_fault :: "download \<Rightarrow> string option"

definition emit :: "event \<Rightarrow> state \<Rightarrow> state" where
  "emit e s = s\<lparr>trace := trace s @ [e]\<rparr>"

subsection \<open>Strings\<close>

definition lower_char :: "char \<Rightarrow> char" where
  "lower_char c =
     (case map_of (zip ''ABCDEFGHIJKLMNOPQRSTUVWXYZ'' ''abcdefghijklmnopqrstuvwxyz'') c of
        Some d \<Rightarrow> d
      | None \<Rightarrow> c)"

definition lower :: "string \<Rightarrow> string" where
  "lower s = map lower_char s"

text \<open>\<^verbatim>\<open>k in s\<close> on strings: \<open>k\<close> occurs in \<open>s\<close> as a contiguous block.\<close>

fun contains :: "string \<Rightarrow> string \<Rightarrow> bool" where
  "contains k [] = (k = [])"
| "contains k (c # cs) = (prefix k (c # cs) \<or> contains k cs)"

text \<open>
  \<^verbatim>\<open>str.strip()\<close> removes the characters for which \<^verbatim>\<open>str.isspace()\<close> holds from both ends:
  U+0009 to U+000D, U+001C to U+0020, U+0085, U+00A0, U+1680, U+2000 to U+200A, U+2028,
  U+2029, U+202F, U+205F and U+3000, here in their UTF-8 encoding (in valid UTF-8 such an
  encoding at either end of a string is a whole character). Every step removes at least one
  byte, so as many steps as the string has bytes are enough.
\<close>

definition whitespace :: "string list" where
  "whitespace =
    [[CHR 0x09], [CHR 0x0A], [CHR 0x0B], [CHR 0x0C], [CHR 0x0D], [CHR 0x1C], [CHR 0x1D],
     [CHR 0x1E], [CHR 0x1F], [CHR 0x20], [CHR 0xC2, CHR 0x85], [CHR 0xC2, CHR 0xA0],
     [CHR 0xE1, CHR 0x9A, CHR 0x80], [CHR 0xE2, CHR 0x80, CHR 0x80],
     [CHR 0xE2, CHR 0x80, CHR 0x81], [CHR 0xE2, CHR 0x80, CHR 0x82],
     [CHR 0xE2, CHR 0x80, CHR 0x83], [CHR 0xE2, CHR 0x80, CHR 0x84],
     [CHR 0xE2, CHR 0x80, CHR 0x85], [CHR 0xE2, CHR 0x80, CHR 0x86],
     [CHR 0xE2, CHR 0x80, CHR 0x87], [CHR 0xE2, CHR 0x80, CHR 0x88],
     [CHR 0xE2, CHR 0x80, CHR 0x89], [CHR 0xE2, CHR 0x80, CHR 0x8A],
     [CHR 0xE2, CHR 0x80, CHR 0xA8], [CHR 0xE2, CHR 0x80, CHR 0xA9],
     [CHR 0xE2, CHR 0x80, CHR 0xAF], [CHR 0xE2, CHR 0x81, CHR 0x9F],
     [CHR 0xE3, CHR 0x80, CHR 0x80]]"

fun lstrip_steps :: "nat \<Rightarrow> string \<Rightarrow> string" where
  "lstrip_steps 0 s = s"
| "lstrip_steps (Suc k) s =
     (case find (\<lambda>w. prefix w s) whitespace of
        None \<Rightarrow> s
      | Some w \<Rightarrow> lstrip_steps k (drop (length w) s))"

fun rstrip_steps :: "nat \<Rightarrow> string \<Rightarrow> string" where
  "rstrip_steps 0 s = s"
| "rstrip_steps (Suc k) s =
     (case find (\<lambda>w. suffix w s) whitespace of
        None \<Rightarrow> s
      | Some w \<Rightarrow> rstrip_steps k (take (length s - length w) s))"

definition strip :: "string \<Rightarrow> string" where
  "strip s = (let l = lstrip_steps (length s) s in rstrip_steps (length l) l)"

text \<open>\<^verbatim>\<open>os.path.dirname\<close> of \<^verbatim>\<open>posixpath\<close>.\<close>

definition dirname :: "string \<Rightarrow> string" where
  "dirname p =
     (let head = rev (dropWhile (\<lambda>c. c \<noteq> CHR ''/'') (rev p))
      in if head \<noteq> [] \<and> filter (\<lambda>c. c \<noteq> CHR ''/'') head \<noteq> []
         then rev (dropWhile (\<lambda>c. c = CHR ''/'') (rev head))
         else head)"

subsection \<open>The collaborators as state transformers\<close>

definition reply_text :: "env \<Rightarrow> string \<Rightarrow> state \<Rightarrow> exn option \<times> state" where
  "reply_text e msg s = (map_option OtherError (reply_text_fault e msg), emit (Reply_text msg) s)"

definition edit_text :: "env \<Rightarrow> string \<Rightarrow> state \<Rightarrow> exn option \<times> state" where
  "edit_text e msg s = (map_option OtherError (edit_text_fault e msg), emit (Edit_text msg) s)"

definition downloader :: "env \<Rightarrow> platform \<Rightarrow> string \<Rightarrow> files \<Rightarrow> (exn + string option) \<times> files" where
  "downloader e p =
     (case p of
        Youtube \<Rightarrow> download_youtube_video e
      | Instagram \<Rightarrow> download_instagram_video e
      | Tiktok \<Rightarrow> download_tiktok_video e
      | Twitter \<Rightarrow> download_twitter_video e
      | Facebook \<Rightarrow> download_facebook_video e)"

definition call_downloader :: "env \<Rightarrow> platform \<Rightarrow> string \<Rightarrow> state \<Rightarrow> (exn + string option) \<times> state" where
  "call_downloader e p url s =
     (let s1 = emit (Call_downloader p url) s;
          r = downloader e p url (files s1)
      in (fst r, s1\<lparr>files := snd r\<rparr>))"

text \<open>
  Modelled from the spec: \<^verbatim>\<open>service.record_download\<close> is not part of the sources. The
  spec's Outcome Recorder "appends one OutcomeRecord"; a persistence failure is the
  exception the handler's \<^verbatim>\<open>except Exception as db_err\<close> clauses expect, and then nothing is
  appended. The fifth and sixth parameters are \<^verbatim>\<open>status\<close> and \<^verbatim>\<open>error_message\<close>.
\<close>

definition record_download ::
  "env \<Rightarrow> int \<Rightarrow> string \<Rightarrow> string \<Rightarrow> real option \<Rightarrow> string \<Rightarrow> string option \<Rightarrow> state
     \<Rightarrow> string option \<times> state" where
  "record_download e uid url source_type file_size status error_message s =
     (let r = \<lparr>d_user_id = uid, d_url = url, d_source_type = source_type,
                d_file_size = file_size, d_status = status, d_error_message = error_message\<rparr>;
          s1 = emit (Record_download r) s
      in case recorder_fault e r of
           Some err \<Rightarrow> (Some err, s1)
         | None \<Rightarrow> (None, s1\<lparr>db := db s1 @ [r]\<rparr>))"

text \<open>
  \<^verbatim>\<open>with bot_app.app_context(): if user_db: record_download(user_db.user_id, ...)\<close>,
  the block every recording site of the handler consists of.
\<close>

definition record_if_user ::
  "env \<Rightarrow> user option \<Rightarrow> string \<Rightarrow> string \<Rightarrow> real option \<Rightarrow> string \<Rightarrow> string option \<Rightarrow> state
     \<Rightarrow> string option \<times> state" where
  "record_if_user e user_db url source_type file_size status error_message s =
     (case user_db of
        None \<Rightarrow> (None, s)
      | Some u \<Rightarrow> record_download e (user_id u) url source_type file_size status error_message s)"

text \<open>The same block inside \<^verbatim>\<open>try: ... except Exception as db_err: logger.error(...)\<close>.\<close>

definition record_guarded ::
  "env \<Rightarrow> (string \<Rightarrow> log_msg) \<Rightarrow> user option \<Rightarrow> string \<Rightarrow> string \<Rightarrow> real option \<Rightarrow> string
     \<Rightarrow> string option \<Rightarrow> state \<Rightarrow> state" where
  "record_guarded e failure_log user_db url source_type file_size status error_message s =
     (case record_if_user e user_db url source_type file_size status error_message s of
        (None, s1) \<Rightarrow> s1
      | (Some db_err, s1) \<Rightarrow> emit (Log ERROR (failure_log db_err)) s1)"

subsection \<open>The failure classifier (lines 220 to 235)\<close>

definition sad :: string where
  "sad = [CHR 0xF0, CHR 0x9F, CHR 0x98, CHR 0x94]"

definition private_account_message :: string where
  "private_account_message =
     sad @ '' Sorry, I can't download videos from private accounts. The account needs to be public.''"

definition too_large_message :: string where
  "too_large_message =
     sad @ '' Sorry, this video is too large to send via Telegram. Telegram has a 50MB size limit.''"

definition no_video_message :: string where
  "no_video_message =
     sad @ '' This post doesn't contain a video. I can only download video content.''"

definition no_information_message :: string where
  "no_information_message =
     sad @ '' I couldn't load information about this video. It might be private or restricted.''"

definition no_streams_message :: string where
  "no_streams_message =
     sad @ '' No suitable video format found. The video might be unavailable or protected.''"

text \<open>The \<^verbatim>\<open>if\<close>/\<^verbatim>\<open>elif\<close> chain that customises the message; its first argument is \<^verbatim>\<open>ERROR_MESSAGE\<close>.\<close>

definition user_friendly_message :: "string \<Rightarrow> string \<Rightarrow> string" where
  "user_friendly_message generic error_message =
     (if contains ''is private'' (lower error_message) then private_account_message
      else if contains ''is too large'' (lower error_message) then too_large_message
      else if contains ''does not contain a video'' (lower error_message) then no_video_message
      else if contains ''could not load video information'' (lower error_message)
        then no_information_message
      else if contains ''no suitable video streams'' (lower error_message) then no_streams_message
      else generic)"

definition detailed_message :: "string \<Rightarrow> string \<Rightarrow> string" where
  "detailed_message generic error_message =
     user_friendly_message generic error_message @ [CHR 0x0A, CHR 0x0A] @ ''Details: ''
       @ error_message"

text \<open>
  The classifier as the specification words it: a fixed ordered list of keyword patterns,
  searched case-insensitively, the first match wins, the generic template otherwise.
\<close>

definition patterns :: "(string \<times> string) list" where
  "patterns =
     [(''is private'', private_account_message),
      (''is too large'', too_large_message),
      (''does not contain a video'', no_video_message),
      (''could not load video information'', no_information_message),
      (''no suitable video streams'', no_streams_message)]"

definition classify_message_spec :: "string \<Rightarrow> string \<Rightarrow> string" where
  "classify_message_spec generic raw_error_text =
     (case find (\<lambda>kt. contains (fst kt) (lower raw_error_text)) patterns of
        Some kt \<Rightarrow> snd kt
      | None \<Rightarrow> generic)"

subsection \<open>The handler (lines 61 to 256)\<close>

text \<open>Lines 74 to 82: the profile lookup, with its own \<^verbatim>\<open>except Exception\<close>.\<close>

definition resolve_user :: "env \<Rightarrow> state \<Rightarrow> user option \<times> state" where
  "resolve_user e s =
     (let s1 = emit Get_or_create_user s
      in case get_or_create_user e of
           Inl err \<Rightarrow> (None, emit (Log ERROR (Database_error_when_creating_user err)) s1)
         | Inr None \<Rightarrow> (None, emit (Log ERROR Failed_to_get_or_create_user) s1)
         | Inr (Some u) \<Rightarrow> (Some u, s1))"

text \<open>Lines 94 to 104: the dispatch on the platform tag.\<close>

definition dispatch :: "env \<Rightarrow> string \<Rightarrow> string \<Rightarrow> state \<Rightarrow> (exn + string option) \<times> state" where
  "dispatch e url_type url s =
     (if url_type = ''youtube'' then call_downloader e Youtube url s
      else if url_type = ''instagram'' then call_downloader e Instagram url s
      else if url_type = ''tiktok'' then call_downloader e Tiktok url s
      else if url_type = ''twitter'' then call_downloader e Twitter url s
      else if url_type = ''facebook'' then call_downloader e Facebook url s
      else (Inr None, s))"

text \<open>
  \<^verbatim>\<open>os.remove\<close>: a missing file raises \<^verbatim>\<open>FileNotFoundError\<close>, an existing one is removed
  unless the environment refuses.
\<close>

definition os_remove :: "env \<Rightarrow> string \<Rightarrow> state \<Rightarrow> string option \<times> state" where
  "os_remove e path s =
     (let s1 = emit (Os_remove path) s
      in if files s1 path = None then (Some (file_not_found e path), s1)
         else case remove_fault e path of
                Some err \<Rightarrow> (Some err, s1)
              | None \<Rightarrow> (None, s1\<lparr>files := (files s1)(path := None)\<rparr>))"

text \<open>Lines 190 to 199: the clean-up, with its \<^verbatim>\<open>except (OSError, FileNotFoundError)\<close>.\<close>

definition cleanup :: "env \<Rightarrow> string \<Rightarrow> state \<Rightarrow> state" where
  "cleanup e video_path s =
     (case os_remove e video_path s of
        (Some err, s1) \<Rightarrow> emit (Log WARNING (Failed_to_clean_up err)) s1
      | (None, s1) \<Rightarrow>
          (let temp_dir = dirname video_path
           in if prefix (gettempdir e) temp_dir
              then (let s2 = emit (Os_rmdir temp_dir) s1
                    in case rmdir_fault e temp_dir of
                         Some err \<Rightarrow> emit (Log WARNING (Failed_to_clean_up err)) s2
                       | None \<Rightarrow> emit (Log INFO Temporary_files_cleaned_up) s2)
              else emit (Log INFO Temporary_files_cleaned_up) s1))"

text \<open>
  Lines 136 to 152: open the file, build the keyboard, send the video. The result is the
  text of the exception some step raised, or \<open>None\<close>.
\<close>

definition send_video :: "env \<Rightarrow> string \<Rightarrow> state \<Rightarrow> string option \<times> state" where
  "send_video e video_path s =
     (let s1 = emit (Open_file video_path) s
      in case open_fault e video_path of
           Some err \<Rightarrow> (Some err, s1)
         | None \<Rightarrow>
             (let s2 = emit (Get_donation_keyboard (DONATION_URL e)) s1
              in case get_donation_keyboard e (DONATION_URL e) of
                   Inl err \<Rightarrow> (Some err, s2)
                 | Inr donation_keyboard \<Rightarrow>
                     (reply_video_fault e video_path,
                      emit (Reply_video video_path (DOWNLOAD_SUCCESS_MESSAGE e) donation_keyboard) s2)))"

text \<open>
  Lines 134 to 199: the inner \<^verbatim>\<open>try\<close> around the send with its \<^verbatim>\<open>except Exception\<close>,
  then the deletion of the processing message and the clean-up.
\<close>

definition deliver ::
  "env \<Rightarrow> user option \<Rightarrow> string \<Rightarrow> string \<Rightarrow> string \<Rightarrow> real \<Rightarrow> state \<Rightarrow> exn option \<times> state" where
  "deliver e user_db url url_type video_path file_size_mb s =
     (case send_video e video_path s of
        (Some err, s1) \<Rightarrow>
          (let s2 = emit (Log ERROR (Error_sending_video err)) s1;
               s3 = record_guarded e Failed_to_record_failed_download user_db url url_type
                      (Some file_size_mb) ''failed'' (Some (''Could not send video: '' @ err)) s2
           in (Some (DownloadError (''Could not send video: '' @ err)), s3))
      | (None, s1) \<Rightarrow>
          (let s2 = emit (Log INFO Video_successfully_sent) s1;
               s3 = record_guarded e Failed_to_record_successful_download user_db url url_type
                      (Some file_size_mb) ''success'' None s2;
               s4 = emit Delete_processing s3
           in case delete_fault e of
                Some err \<Rightarrow> (Some (OtherError err), s4)
              | None \<Rightarrow> (None, cleanup e video_path s4)))"

text \<open>Lines 110 to 132: the checks on the downloaded file, then the delivery.\<close>

definition gate ::
  "env \<Rightarrow> user option \<Rightarrow> string \<Rightarrow> string \<Rightarrow> string \<Rightarrow> state \<Rightarrow> exn option \<times> state" where
  "gate e user_db url url_type video_path s =
     (case files s video_path of
        None \<Rightarrow>
          (Some (DownloadError ''The downloaded file could not be found.''),
           emit (Path_exists video_path False) s)
      | Some file_size \<Rightarrow>
          (let s1 = emit (Path_exists video_path True) s;
               s2 = emit (Get_size video_path file_size) s1;
               file_size_mb = real file_size / (1024 * 1024);
               s3 = emit (Log INFO (Successfully_downloaded file_size_mb)) s2
           in if file_size > 50 * 1024 * 1024
              then (case record_if_user e user_db url url_type (Some file_size_mb) ''failed''
                           (Some ''Video too large to send (limit: 50MB)'') s3 of
                      (Some err, s4) \<Rightarrow> (Some (OtherError err), s4)
                    | (None, s4) \<Rightarrow>
                        (Some (DownloadError
                           ''The video is too large to send via Telegram (limit: 50MB).''), s4))
              else deliver e user_db url url_type video_path file_size_mb s3))"

text \<open>Lines 87 to 199: the body of the outer \<^verbatim>\<open>try\<close>.\<close>

definition try_body ::
  "env \<Rightarrow> user option \<Rightarrow> string \<Rightarrow> string \<Rightarrow> state \<Rightarrow> exn option \<times> state" where
  "try_body e user_db url url_type s =
     (case dispatch e url_type url (emit (Log INFO (Attempting_to_download url_type url)) s) of
        (Inl err, s1) \<Rightarrow> (Some err, s1)
      | (Inr None, s1) \<Rightarrow>
          (Some (DownloadError (''Couldn't download video from '' @ url_type @ '': '' @ url)), s1)
      | (Inr (Some video_path), s1) \<Rightarrow> gate e user_db url url_type video_path s1)"

text \<open>Lines 201 to 236: \<^verbatim>\<open>except DownloadError as e\<close>.\<close>

definition on_download_error ::
  "env \<Rightarrow> user option \<Rightarrow> string \<Rightarrow> string \<Rightarrow> string \<Rightarrow> state \<Rightarrow> exn option \<times> state" where
  "on_download_error e user_db url url_type error_message s =
     (let s1 = emit (Log ERROR (Download_error error_message)) s;
          s2 = record_guarded e Failed_to_record_download user_db url url_type None ''failed''
                 (Some error_message) s1
      in edit_text e (detailed_message (ERROR_MESSAGE e) error_message) s2)"

text \<open>Lines 238 to 256: \<^verbatim>\<open>except Exception as e\<close>.\<close>

definition on_unexpected ::
  "env \<Rightarrow> user option \<Rightarrow> string \<Rightarrow> string \<Rightarrow> string \<Rightarrow> state \<Rightarrow> exn option \<times> state" where
  "on_unexpected e user_db url url_type err s =
     (let s1 = emit (Log ERROR (Unexpected_error err)) s;
          s2 = record_guarded e Failed_to_record_download user_db url
                 (if url_type \<noteq> [] then url_type else ''unknown'') None ''failed''
                 (Some (''Unexpected error: '' @ err)) s1
      in edit_text e
           (ERROR_MESSAGE e @ [CHR 0x0A, CHR 0x0A]
              @ ''An unexpected error occurred. Please try again later.'') s2)"

text \<open>Lines 74 to 256: everything after the URL has been classified.\<close>

definition pipeline :: "env \<Rightarrow> string \<Rightarrow> string \<Rightarrow> user option \<Rightarrow> state \<Rightarrow> exn option \<times> state" where
  "pipeline e url url_type user_db s =
     (case reply_text e (PROCESSING_MESSAGE e) s of
        (Some err, s1) \<Rightarrow> (Some err, s1)
      | (None, s1) \<Rightarrow>
          (case try_body e user_db url url_type s1 of
             (None, s2) \<Rightarrow> (None, s2)
           | (Some (DownloadError error_message), s2) \<Rightarrow>
               on_download_error e user_db url url_type error_message s2
           | (Some (OtherError err), s2) \<Rightarrow> on_unexpected e user_db url url_type err s2))"

text \<open>
  The handler on the text of the inbound message. The first component of the result is
  the exception that leaves the handler, \<open>None\<close> when it returns.
\<close>

definition handle_url :: "env \<Rightarrow> string \<Rightarrow> state \<Rightarrow> exn option \<times> state" where
  "handle_url e text s =
     (let url = strip text;
          s1 = emit (Log INFO (Received_URL url)) s
      in case get_url_type e url of
           None \<Rightarrow> reply_text e (INVALID_URL_MESSAGE e) (emit (Log INFO (Invalid_URL_rejected url)) s1)
         | Some url_type \<Rightarrow>
             if url_type = []
             then reply_text e (INVALID_URL_MESSAGE e) (emit (Log INFO (Invalid_URL_rejected url)) s1)
             else (case resolve_user e s1 of
                     (user_db, s2) \<Rightarrow> pipeline e url url_type user_db s2))"

subsection \<open>What the stages of a run leave behind\<close>

text \<open>
  Summaries used to state what a run did: the row a recording site writes for a resolved
  user, the rows and the events one guarded recording site adds, the downloader the
  dispatch selects for a tag, and the events of the clean-up. Each one is proved below to
  agree with the stage of the handler it summarises.
\<close>

definition row :: "user \<Rightarrow> string \<Rightarrow> string \<Rightarrow> real option \<Rightarrow> string \<Rightarrow> string option \<Rightarrow> download" where
  "row u url source_type file_size status error_message =
     \<lparr>d_user_id = user_id u, d_url = url, d_source_type = source_type,
      d_file_size = file_size, d_status = status, d_error_message = error_message\<rparr>"

definition recorded ::
  "env \<Rightarrow> user option \<Rightarrow> string \<Rightarrow> string \<Rightarrow> real option \<Rightarrow> string \<Rightarrow> string option
     \<Rightarrow> download list" where
  "recorded e user_db url source_type file_size status error_message =
     (case user_db of
        None \<Rightarrow> []
      | Some u \<Rightarrow>
          (case recorder_fault e (row u url source_type file_size status error_message) of
             None \<Rightarrow> [row u url source_type file_size status error_message]
           | Some err \<Rightarrow> []))"

definition recording_events ::
  "env \<Rightarrow> (string \<Rightarrow> log_msg) \<Rightarrow> user option \<Rightarrow> string \<Rightarrow> string \<Rightarrow> real option \<Rightarrow> string
     \<Rightarrow> string option \<Rightarrow> event list" where
  "recording_events e failure_log user_db url source_type file_size status error_message =
     (case user_db of
        None \<Rightarrow> []
      | Some u \<Rightarrow>
          Record_download (row u url source_type file_size status error_message) #
          (case recorder_fault e (row u url source_type file_size status error_message) of
             None \<Rightarrow> []
           | Some err \<Rightarrow> [Log ERROR (failure_log err)]))"

definition platform_of :: "string \<Rightarrow> platform option" where
  "platform_of url_type =
     (if url_type = ''youtube'' then Some Youtube
      else if url_type = ''instagram'' then Some Instagram
      else if url_type = ''tiktok'' then Some Tiktok
      else if url_type = ''twitter'' then Some Twitter
      else if url_type = ''facebook'' then Some Facebook
      else None)"

definition cleanup_events :: "env \<Rightarrow> string \<Rightarrow> files \<Rightarrow> event list" where
  "cleanup_events e video_path fs =
     Os_remove video_path #
     (if fs video_path = None then [Log WARNING (Failed_to_clean_up (file_not_found e video_path))]
      else case remove_fault e video_path of
             Some err \<Rightarrow> [Log WARNING (Failed_to_clean_up err)]
           | None \<Rightarrow>
               if prefix (gettempdir e) (dirname video_path)
               then [Os_rmdir (dirname video_path),
                     (case rmdir_fault e (dirname video_path) of
                        Some err \<Rightarrow> Log WARNING (Failed_to_clean_up err)
                      | None \<Rightarrow> Log INFO Temporary_files_cleaned_up)]
               else [Log INFO Temporary_files_cleaned_up])"

definition resolved :: "env \<Rightarrow> user option" where
  "resolved e = (case get_or_create_user e of Inl err \<Rightarrow> None | Inr found \<Rightarrow> found)"

definition lookup_events :: "env \<Rightarrow> event list" where
  "lookup_events e =
     Get_or_create_user #
     (case get_or_create_user e of
        Inl err \<Rightarrow> [Log ERROR (Database_error_when_creating_user err)]
      | Inr None \<Rightarrow> [Log ERROR Failed_to_get_or_create_user]
      | Inr (Some u) \<Rightarrow> [])"

definition send_fault :: "env \<Rightarrow> string \<Rightarrow> string option" where
  "send_fault e video_path =
     (case open_fault e video_path of
        Some err \<Rightarrow> Some err
      | None \<Rightarrow>
          (case get_donation_keyboard e (DONATION_URL e) of
             Inl err \<Rightarrow> Some err
           | Inr donation_keyboard \<Rightarrow> reply_video_fault e video_path))"

definition send_events :: "env \<Rightarrow> string \<Rightarrow> event list" where
  "send_events e video_path =
     Open_file video_path #
     (case open_fault e video_path of
        Some err \<Rightarrow> []
      | None \<Rightarrow>
          Get_donation_keyboard (DONATION_URL e) #
          (case get_donation_keyboard e (DONATION_URL e) of
             Inl err \<Rightarrow> []
           | Inr donation_keyboard \<Rightarrow>
               [Reply_video video_path (DOWNLOAD_SUCCESS_MESSAGE e) donation_keyboard]))"

text \<open>The events of a classified run up to the dispatch.\<close>

definition prologue :: "env \<Rightarrow> string \<Rightarrow> string \<Rightarrow> event list" where
  "prologue e url url_type =
     Log INFO (Received_URL url) # lookup_events e
       @ [Reply_text (PROCESSING_MESSAGE e), Log INFO (Attempting_to_download url_type url)]"

text \<open>The reply and the events of the two \<^verbatim>\<open>except\<close> clauses of the outer \<^verbatim>\<open>try\<close>.\<close>

definition unexpected_reply :: "env \<Rightarrow> string" where
  "unexpected_reply e =
     ERROR_MESSAGE e @ [CHR 0x0A, CHR 0x0A]
       @ ''An unexpected error occurred. Please try again later.''"

definition download_error_events ::
  "env \<Rightarrow> user option \<Rightarrow> string \<Rightarrow> string \<Rightarrow> string \<Rightarrow> event list" where
  "download_error_events e user_db url url_type error_message =
     Log ERROR (Download_error error_message)
     # recording_events e Failed_to_record_download user_db url url_type None ''failed''
         (Some error_message)
     @ [Edit_text (detailed_message (ERROR_MESSAGE e) error_message)]"

definition unexpected_events ::
  "env \<Rightarrow> user option \<Rightarrow> string \<Rightarrow> string \<Rightarrow> string \<Rightarrow> event list" where
  "unexpected_events e user_db url url_type err =
     Log ERROR (Unexpected_error err)
     # recording_events e Failed_to_record_download user_db url url_type None ''failed''
         (Some (''Unexpected error: '' @ err))
     @ [Edit_text (unexpected_reply e)]"

text \<open>The exception of the unguarded recording site of the size check (lines 122 to 131).\<close>

definition gate_record_fault :: "env \<Rightarrow> user option \<Rightarrow> string \<Rightarrow> string \<Rightarrow> real \<Rightarrow> string option" where
  "gate_record_fault e user_db url url_type file_size_mb =
     (case user_db of
        None \<Rightarrow> None
      | Some u \<Rightarrow>
          recorder_fault e
            (row u url url_type (Some file_size_mb) ''failed''
               (Some ''Video too large to send (limit: 50MB)'')))"

text \<open>
  What the statements about the number of rows assume of the collaborators: the profile
  lookup returned the user, the recorder does not fail, and the processing reply was sent.
\<close>

definition recording_ready :: "env \<Rightarrow> user \<Rightarrow> bool" where
  "recording_ready e u =
     (get_or_create_user e = Inr (Some u) \<and> (\<forall>r. recorder_fault e r = None)
      \<and> reply_text_fault e (PROCESSING_MESSAGE e) = None)"

fun is_reply_video :: "event \<Rightarrow> bool" where
  "is_reply_video (Reply_video path caption markup) = True"
| "is_reply_video other = False"

fun is_call_downloader :: "event \<Rightarrow> bool" where
  "is_call_downloader (Call_downloader p url) = True"
| "is_call_downloader other = False"

subsection \<open>A concrete environment\<close>

text \<open>
  An environment in which every collaborator works: the classifier knows one TikTok link
  and answers \<open>vimeo\<close>, a tag nothing is dispatched on, for one other link; the TikTok
  downloader writes a file of 3 MiB into a fresh temporary directory.
\<close>

definition alice :: user where
  "alice = \<lparr>user_id = 42, username = Some ''alice'', first_name = Some ''Alice'',
             last_name = None, language_code = Some ''en'', is_premium = False\<rparr>"

definition tiktok_link :: string where
  "tiktok_link = ''https://www.tiktok.com/@user/video/123''"

definition vimeo_link :: string where
  "vimeo_link = ''https://vimeo.com/1''"

definition video_file :: string where
  "video_file = ''/tmp/tmpab12/video.mp4''"

definition init :: state where
  "init = \<lparr>trace = [], db = [], files = Map.empty\<rparr>"

definition writes :: "nat \<Rightarrow> string \<Rightarrow> files \<Rightarrow> (exn + string option) \<times> files" where
  "writes n url fs = (Inr (Some video_file), fs(video_file \<mapsto> n))"

definition fails :: "exn \<Rightarrow> string \<Rightarrow> files \<Rightarrow> (exn + string option) \<times> files" where
  "fails x url fs = (Inl x, fs)"

definition good_env :: env where
  "good_env =
     \<lparr>INVALID_URL_MESSAGE = ''Please send a valid link.'',
      PROCESSING_MESSAGE = ''Processing...'',
      ERROR_MESSAGE = ''Something went wrong.'',
      DOWNLOAD_SUCCESS_MESSAGE = ''Here is your video.'',
      DONATION_URL = ''https://example.org/donate'',
      get_url_type =
        (\<lambda>u. if u = tiktok_link then Some ''tiktok''
             else if u = vimeo_link then Some ''vimeo'' else None),
      get_or_create_user = Inr (Some alice),
      download_youtube_video = fails (DownloadError ''Video unavailable''),
      download_instagram_video = fails (DownloadError ''Video unavailable''),
      download_tiktok_video = writes (3 * 1024 * 1024),
      download_twitter_video = fails (DownloadError ''Video unavailable''),
      download_facebook_video = fails (DownloadError ''Video unavailable''),
      get_donation_keyboard = (\<lambda>u. Inr (Some (Keyboard u))),
      reply_text_fault = (\<lambda>m. None),
      reply_video_fault = (\<lambda>p. None),
      edit_text_fault = (\<lambda>m. None),
      delete_fault = None,
      open_fault = (\<lambda>p. None),
      remove_fault = (\<lambda>p. None),
      rmdir_fault = (\<lambda>p. None),
      file_not_found =
        (\<lambda>p. ''[Errno 2] No such file or directory: '' @ [CHR 0x27] @ p @ [CHR 0x27]),
      gettempdir = ''/tmp'',
      recorder_fault = (\<lambda>r. None)\<rparr>"

text \<open>
  Variations: the profile lookup returns nothing; the downloaded file has 60 MiB; the
  same with a recorder that is down; the recorder is down and the file has 3 MiB; the file
  has exactly 50 MiB; the downloader raises
  something that is not a \<^verbatim>\<open>DownloadError\<close>; the downloader raises a \<^verbatim>\<open>DownloadError\<close>;
  the downloader returns nothing; the downloader names a file it did not write.
\<close>

definition no_profile_env :: env where
  "no_profile_env = good_env\<lparr>get_or_create_user := Inr None\<rparr>"

definition big_env :: env where
  "big_env = good_env\<lparr>download_tiktok_video := writes (60 * 1024 * 1024)\<rparr>"

definition db_down_env :: env where
  "db_down_env = big_env\<lparr>recorder_fault := (\<lambda>r. Some ''connection lost'')\<rparr>"

definition small_db_down_env :: env where
  "small_db_down_env = good_env\<lparr>recorder_fault := (\<lambda>r. Some ''connection lost'')\<rparr>"

definition edge_env :: env where
  "edge_env = good_env\<lparr>download_tiktok_video := writes (50 * 1024 * 1024)\<rparr>"

definition broken_env :: env where
  "broken_env = good_env\<lparr>download_tiktok_video := fails (OtherError ''boom'')\<rparr>"

definition private_env :: env where
  "private_env =
     good_env\<lparr>download_tiktok_video := fails (DownloadError ''This account is private'')\<rparr>"

definition empty_env :: env where
  "empty_env = good_env\<lparr>download_tiktok_video := (\<lambda>url fs. (Inr None, fs))\<rparr>"

definition lost_env :: env where
  "lost_env = good_env\<lparr>download_tiktok_video := (\<lambda>url fs. (Inr (Some video_file), fs))\<rparr>"

section \<open>Basic facts\<close>

lemma emit_simps [simp]:
  "trace (emit x s) = trace s @ [x]" "db (emit x s) = db s" "files (emit x s) = files s"
  by (simp_all add: emit_def)

lemma contains_iff: "contains k s \<longleftrightarrow> (\<exists>ps ss. s = ps @ k @ ss)"
proof (induction s)
  case Nil
  then show ?case by auto
next
  case (Cons c cs)
  show ?case
  proof
    assume "contains k (c # cs)"
    then consider "prefix k (c # cs)" | "contains k cs" by auto
    then show "\<exists>ps ss. c # cs = ps @ k @ ss"
    proof cases
      case 1
      then obtain ss where "c # cs = k @ ss" by (auto simp: prefix_def)
      then have "c # cs = [] @ k @ ss" by simp
      then show ?thesis by blast
    next
      case 2
      with Cons.IH obtain ps ss where "cs = ps @ k @ ss" by blast
      then have "c # cs = (c # ps) @ k @ ss" by simp
      then show ?thesis by blast
    qed
  next
    assume "\<exists>ps ss. c # cs = ps @ k @ ss"
    then obtain ps ss where eq: "c # cs = ps @ k @ ss" by blast
    show "contains k (c # cs)"
    proof (cases ps)
      case Nil
      with eq have "prefix k (c # cs)" by (simp add: prefix_def)
      then show ?thesis by simp
    next
      case (Cons p ps')
      with eq have "cs = ps' @ k @ ss" by simp
      with Cons.IH have "contains k cs" by blast
      then show ?thesis by simp
    qed
  qed
qed

lemma whitespace_not_empty: "w \<in> set whitespace \<Longrightarrow> w \<noteq> []"
  by (auto simp add: whitespace_def)

lemma lstrip_steps_done:
  "find (\<lambda>w. prefix w s) whitespace = None \<Longrightarrow> lstrip_steps k s = s"
  by (cases k) simp_all

lemma rstrip_steps_done:
  "find (\<lambda>w. suffix w s) whitespace = None \<Longrightarrow> rstrip_steps k s = s"
  by (cases k) simp_all

text \<open>The steps are enough: what \<open>strip\<close> returns has no white space at either end.\<close>

lemma lstrip_steps_enough:
  "length s \<le> k \<Longrightarrow> find (\<lambda>w. prefix w (lstrip_steps k s)) whitespace = None"
proof (induction k arbitrary: s)
  case 0
  then show ?case by (simp add: whitespace_def)
next
  case (Suc k)
  show ?case
  proof (cases "find (\<lambda>w. prefix w s) whitespace")
    case None
    then show ?thesis by simp
  next
    case (Some w)
    then have "w \<in> set whitespace" "prefix w s"
      by (auto simp add: find_Some_iff)
    then have "w \<noteq> []" "length w \<le> length s"
      by (auto simp add: whitespace_not_empty prefix_length_le)
    with Suc.prems have "length (drop (length w) s) \<le> k"
      by (cases w) auto
    with Suc.IH Some show ?thesis by simp
  qed
qed

lemma rstrip_steps_enough:
  "length s \<le> k \<Longrightarrow> find (\<lambda>w. suffix w (rstrip_steps k s)) whitespace = None"
proof (induction k arbitrary: s)
  case 0
  then show ?case by (simp add: whitespace_def)
next
  case (Suc k)
  show ?case
  proof (cases "find (\<lambda>w. suffix w s) whitespace")
    case None
    then show ?thesis by simp
  next
    case (Some w)
    then have "w \<in> set whitespace" "suffix w s"
      by (auto simp add: find_Some_iff)
    then have "w \<noteq> []" "length w \<le> length s"
      by (auto simp add: whitespace_not_empty suffix_length_le)
    with Suc.prems have "length (take (length s - length w) s) \<le> k"
      by (cases w) auto
    with Suc.IH Some show ?thesis by simp
  qed
qed

lemma strip_unchanged:
  assumes "find (\<lambda>w. prefix w s) whitespace = None"
      and "find (\<lambda>w. suffix w s) whitespace = None"
  shows "strip s = s"
  using assms by (simp add: strip_def lstrip_steps_done rstrip_steps_done)

lemma strip_tiktok_link: "strip tiktok_link = tiktok_link"
  by (rule strip_unchanged) (simp_all add: tiktok_link_def whitespace_def suffix_to_prefix)

lemma strip_vimeo_link: "strip vimeo_link = vimeo_link"
  by (rule strip_unchanged) (simp_all add: vimeo_link_def whitespace_def suffix_to_prefix)

lemma strip_example:
  "strip ([CHR 0x20, CHR 0xC2, CHR 0xA0] @ ''a b'' @ [CHR 0xE2, CHR 0x80, CHR 0x83, CHR 0x0A])
     = ''a b''"
  by (simp add: strip_def whitespace_def suffix_to_prefix numeral_eq_Suc)

section \<open>The stages of the handler\<close>

subsection \<open>Recording, clean-up and the two handlers\<close>

lemma record_if_user_None [simp]: "record_if_user e None url t sz st em s = (None, s)"
  by (simp add: record_if_user_def)

lemma record_guarded_None [simp]: "record_guarded e lg None url t sz st em s = s"
  by (simp add: record_guarded_def)

lemma record_if_user_fst:
  "fst (record_if_user e (Some u) url t sz st em s) = recorder_fault e (row u url t sz st em)"
  by (simp add: record_if_user_def record_download_def row_def Let_def split: option.splits)

lemma record_if_user_trace:
  "trace (snd (record_if_user e (Some u) url t sz st em s))
     = trace s @ [Record_download (row u url t sz st em)]"
  by (simp add: record_if_user_def record_download_def row_def Let_def split: option.splits)

lemma record_if_user_db:
  "db (snd (record_if_user e u url t sz st em s)) = db s @ recorded e u url t sz st em"
  by (simp add: record_if_user_def record_download_def row_def recorded_def Let_def
      split: option.splits)

lemma record_if_user_files [simp]:
  "files (snd (record_if_user e u url t sz st em s)) = files s"
  by (simp add: record_if_user_def record_download_def Let_def split: option.splits)

lemma record_guarded_trace:
  "trace (record_guarded e lg u url t sz st em s)
     = trace s @ recording_events e lg u url t sz st em"
  by (simp add: record_guarded_def record_if_user_def record_download_def row_def
      recording_events_def Let_def split: option.splits)

lemma record_guarded_db:
  "db (record_guarded e lg u url t sz st em s) = db s @ recorded e u url t sz st em"
  by (simp add: record_guarded_def record_if_user_def record_download_def row_def recorded_def
      Let_def split: option.splits)

lemma record_guarded_files [simp]:
  "files (record_guarded e lg u url t sz st em s) = files s"
  by (simp add: record_guarded_def record_if_user_def record_download_def Let_def
      split: option.splits)

lemma cleanup_trace: "trace (cleanup e p s) = trace s @ cleanup_events e p (files s)"
  by (simp add: cleanup_def os_remove_def cleanup_events_def Let_def split: option.splits)

lemma cleanup_db [simp]: "db (cleanup e p s) = db s"
  by (simp add: cleanup_def os_remove_def Let_def split: option.splits)

lemma cleanup_files:
  "files (cleanup e p s)
     = (if files s p \<noteq> None \<and> remove_fault e p = None then (files s)(p := None) else files s)"
  by (simp add: cleanup_def os_remove_def Let_def split: option.splits)

lemma on_download_error_fst:
  "fst (on_download_error e u url t m s)
     = map_option OtherError (edit_text_fault e (detailed_message (ERROR_MESSAGE e) m))"
  by (simp add: on_download_error_def edit_text_def Let_def)

lemma on_download_error_trace:
  "trace (snd (on_download_error e u url t m s))
     = trace s @ Log ERROR (Download_error m)
         # recording_events e Failed_to_record_download u url t None ''failed'' (Some m)
         @ [Edit_text (detailed_message (ERROR_MESSAGE e) m)]"
  by (simp add: on_download_error_def edit_text_def Let_def record_guarded_trace)

lemma on_download_error_db:
  "db (snd (on_download_error e u url t m s))
     = db s @ recorded e u url t None ''failed'' (Some m)"
  by (simp add: on_download_error_def edit_text_def Let_def record_guarded_db)

lemma on_download_error_files [simp]:
  "files (snd (on_download_error e u url t m s)) = files s"
  by (simp add: on_download_error_def edit_text_def Let_def)

lemma on_unexpected_fst:
  "fst (on_unexpected e u url t m s)
     = map_option OtherError
         (edit_text_fault e (ERROR_MESSAGE e @ [CHR 0x0A, CHR 0x0A]
            @ ''An unexpected error occurred. Please try again later.''))"
  by (simp add: on_unexpected_def edit_text_def Let_def)

lemma on_unexpected_trace:
  "t \<noteq> [] \<Longrightarrow> trace (snd (on_unexpected e u url t m s))
     = trace s @ Log ERROR (Unexpected_error m)
         # recording_events e Failed_to_record_download u url t None ''failed''
             (Some (''Unexpected error: '' @ m))
         @ [Edit_text (ERROR_MESSAGE e @ [CHR 0x0A, CHR 0x0A]
              @ ''An unexpected error occurred. Please try again later.'')]"
  by (simp add: on_unexpected_def edit_text_def Let_def record_guarded_trace)

lemma on_unexpected_db:
  "t \<noteq> [] \<Longrightarrow> db (snd (on_unexpected e u url t m s))
     = db s @ recorded e u url t None ''failed'' (Some (''Unexpected error: '' @ m))"
  by (simp add: on_unexpected_def edit_text_def Let_def record_guarded_db)

lemma on_unexpected_files [simp]:
  "files (snd (on_unexpected e u url t m s)) = files s"
  by (simp add: on_unexpected_def edit_text_def Let_def)

lemma dispatch_platform:
  "dispatch e t url s
     = (case platform_of t of None \<Rightarrow> (Inr None, s) | Some p \<Rightarrow> call_downloader e p url s)"
  by (simp add: dispatch_def platform_of_def)

subsection \<open>Profile lookup, sending and delivery\<close>

lemma resolve_user_fst: "fst (resolve_user e s) = resolved e"
  by (simp add: resolve_user_def resolved_def Let_def split: sum.splits option.splits)

lemma resolve_user_trace: "trace (snd (resolve_user e s)) = trace s @ lookup_events e"
  by (simp add: resolve_user_def lookup_events_def Let_def split: sum.splits option.splits)

lemma resolve_user_db [simp]: "db (snd (resolve_user e s)) = db s"
  by (simp add: resolve_user_def Let_def split: sum.splits option.splits)

lemma resolve_user_files [simp]: "files (snd (resolve_user e s)) = files s"
  by (simp add: resolve_user_def Let_def split: sum.splits option.splits)

lemma send_video_fst: "fst (send_video e p s) = send_fault e p"
  by (simp add: send_video_def send_fault_def Let_def split: sum.splits option.splits)

lemma send_video_trace: "trace (snd (send_video e p s)) = trace s @ send_events e p"
  by (simp add: send_video_def send_events_def Let_def split: sum.splits option.splits)

lemma send_video_db [simp]: "db (snd (send_video e p s)) = db s"
  by (simp add: send_video_def Let_def split: sum.splits option.splits)

lemma send_video_files [simp]: "files (snd (send_video e p s)) = files s"
  by (simp add: send_video_def Let_def split: sum.splits option.splits)

lemma deliver_fst:
  "fst (deliver e u url t p mb s)
     = (case send_fault e p of
          Some err \<Rightarrow> Some (DownloadError (''Could not send video: '' @ err))
        | None \<Rightarrow> map_option OtherError (delete_fault e))"
  by (simp add: deliver_def Let_def case_prod_beta send_video_fst split: option.splits)

lemma deliver_db:
  "db (snd (deliver e u url t p mb s))
     = db s @ (case send_fault e p of
                 Some err \<Rightarrow> recorded e u url t (Some mb) ''failed''
                               (Some (''Could not send video: '' @ err))
               | None \<Rightarrow> recorded e u url t (Some mb) ''success'' None)"
  by (simp add: deliver_def Let_def case_prod_beta send_video_fst record_guarded_db
      split: option.splits)

lemma deliver_files:
  "files (snd (deliver e u url t p mb s))
     = (if send_fault e p = None \<and> delete_fault e = None \<and> files s p \<noteq> None
           \<and> remove_fault e p = None
        then (files s)(p := None) else files s)"
  by (simp add: deliver_def Let_def case_prod_beta send_video_fst cleanup_files
      split: option.splits)

lemma deliver_trace:
  "trace (snd (deliver e u url t p mb s))
     = trace s @ send_events e p @
       (case send_fault e p of
          Some err \<Rightarrow>
            Log ERROR (Error_sending_video err)
            # recording_events e Failed_to_record_failed_download u url t (Some mb) ''failed''
                (Some (''Could not send video: '' @ err))
        | None \<Rightarrow>
            Log INFO Video_successfully_sent
            # recording_events e Failed_to_record_successful_download u url t (Some mb)
                ''success'' None
            @ Delete_processing
            # (case delete_fault e of Some err \<Rightarrow> [] | None \<Rightarrow> cleanup_events e p (files s)))"
  by (simp add: deliver_def Let_def case_prod_beta send_video_fst send_video_trace
      cleanup_trace record_guarded_trace split: option.splits)

subsection \<open>The paths through the body of the try\<close>

lemma handle_url_classified:
  assumes "get_url_type e (strip text) = Some t" "t \<noteq> []"
  shows "handle_url e text s
           = pipeline e (strip text) t (resolved e)
               (snd (resolve_user e (emit (Log INFO (Received_URL (strip text))) s)))"
  using assms resolve_user_fst [of e "emit (Log INFO (Received_URL (strip text))) s"]
  by (simp add: handle_url_def Let_def case_prod_beta)

lemma pipeline_replied:
  assumes "reply_text_fault e (PROCESSING_MESSAGE e) = None"
  shows "pipeline e url t u s
           = (case try_body e u url t (emit (Reply_text (PROCESSING_MESSAGE e)) s) of
                (None, s2) \<Rightarrow> (None, s2)
              | (Some (DownloadError m), s2) \<Rightarrow> on_download_error e u url t m s2
              | (Some (OtherError m), s2) \<Rightarrow> on_unexpected e u url t m s2)"
  using assms by (simp add: pipeline_def reply_text_def)

lemma call_downloader_fst: "fst (call_downloader e pl url s) = fst (downloader e pl url (files s))"
  by (simp add: call_downloader_def Let_def)

lemma call_downloader_trace:
  "trace (snd (call_downloader e pl url s)) = trace s @ [Call_downloader pl url]"
  by (simp add: call_downloader_def Let_def)

lemma call_downloader_db [simp]: "db (snd (call_downloader e pl url s)) = db s"
  by (simp add: call_downloader_def Let_def)

lemma call_downloader_files:
  "files (snd (call_downloader e pl url s)) = snd (downloader e pl url (files s))"
  by (simp add: call_downloader_def Let_def)

lemma try_body_unknown:
  assumes "platform_of t = None"
  shows "try_body e u url t s
           = (Some (DownloadError (''Couldn't download video from '' @ t @ '': '' @ url)),
              emit (Log INFO (Attempting_to_download t url)) s)"
  using assms by (simp add: try_body_def dispatch_platform)

lemma try_body_known:
  assumes "platform_of t = Some pl"
  shows "try_body e u url t s
           = (case call_downloader e pl url (emit (Log INFO (Attempting_to_download t url)) s) of
                (Inl err, s1) \<Rightarrow> (Some err, s1)
              | (Inr None, s1) \<Rightarrow>
                  (Some (DownloadError (''Couldn't download video from '' @ t @ '': '' @ url)), s1)
              | (Inr (Some video_path), s1) \<Rightarrow> gate e u url t video_path s1)"
  using assms by (simp add: try_body_def dispatch_platform)

lemma gate_missing:
  assumes "files s p = None"
  shows "gate e u url t p s
           = (Some (DownloadError ''The downloaded file could not be found.''),
              emit (Path_exists p False) s)"
  using assms by (simp add: gate_def)

lemma gate_too_large:
  assumes "files s p = Some n" "50 * 1024 * 1024 < n"
  shows "gate e u url t p s
           = (case record_if_user e u url t (Some (real n / (1024 * 1024))) ''failed''
                     (Some ''Video too large to send (limit: 50MB)'')
                     (emit (Log INFO (Successfully_downloaded (real n / (1024 * 1024))))
                        (emit (Get_size p n) (emit (Path_exists p True) s))) of
                (Some err, s4) \<Rightarrow> (Some (OtherError err), s4)
              | (None, s4) \<Rightarrow>
                  (Some (DownloadError
                     ''The video is too large to send via Telegram (limit: 50MB).''), s4))"
  using assms by (simp add: gate_def Let_def)

lemma gate_accepts:
  assumes "files s p = Some n" "n \<le> 50 * 1024 * 1024"
  shows "gate e u url t p s
           = deliver e u url t p (real n / (1024 * 1024))
               (emit (Log INFO (Successfully_downloaded (real n / (1024 * 1024))))
                  (emit (Get_size p n) (emit (Path_exists p True) s)))"
  using assms by (simp add: gate_def Let_def)

subsection \<open>The run, path by path\<close>

lemma handler_results:
  "fst (on_download_error e u url t m s)
     = map_option OtherError (edit_text_fault e (detailed_message (ERROR_MESSAGE e) m))"
  "trace (snd (on_download_error e u url t m s)) = trace s @ download_error_events e u url t m"
  "fst (on_unexpected e u url t m s) = map_option OtherError (edit_text_fault e (unexpected_reply e))"
  "t \<noteq> [] \<Longrightarrow> trace (snd (on_unexpected e u url t m s)) = trace s @ unexpected_events e u url t m"
  by (simp_all add: on_download_error_fst on_download_error_trace on_unexpected_fst
      on_unexpected_trace download_error_events_def unexpected_events_def unexpected_reply_def)

lemma gate_too_large_fst:
  assumes "files s p = Some n" "50 * 1024 * 1024 < n"
  shows "fst (gate e u url t p s)
           = (case gate_record_fault e u url t (real n / (1024 * 1024)) of
                None \<Rightarrow> Some (DownloadError
                          ''The video is too large to send via Telegram (limit: 50MB).'')
              | Some err \<Rightarrow> Some (OtherError err))"
  by (cases u)
     (simp_all add: gate_too_large [OF assms] case_prod_beta record_if_user_fst
        gate_record_fault_def split: option.splits)

lemma gate_too_large_trace:
  assumes "files s p = Some n" "50 * 1024 * 1024 < n"
  shows "trace (snd (gate e u url t p s))
           = trace s @ [Path_exists p True, Get_size p n,
                        Log INFO (Successfully_downloaded (real n / (1024 * 1024)))]
             @ (case u of
                  None \<Rightarrow> []
                | Some v \<Rightarrow> [Record_download
                               (row v url t (Some (real n / (1024 * 1024))) ''failed''
                                  (Some ''Video too large to send (limit: 50MB)''))])"
  by (cases u)
     (simp_all add: gate_too_large [OF assms] case_prod_beta record_if_user_trace
        split: option.splits)

lemma gate_too_large_db:
  assumes "files s p = Some n" "50 * 1024 * 1024 < n"
  shows "db (snd (gate e u url t p s))
           = db s @ recorded e u url t (Some (real n / (1024 * 1024))) ''failed''
                      (Some ''Video too large to send (limit: 50MB)'')"
  by (simp add: gate_too_large [OF assms] case_prod_beta record_if_user_db
        split: option.splits)

lemma gate_too_large_files:
  assumes "files s p = Some n" "50 * 1024 * 1024 < n"
  shows "files (snd (gate e u url t p s)) = files s"
  by (simp add: gate_too_large [OF assms] case_prod_beta split: option.splits)

text \<open>The run up to the result of the downloader.\<close>

lemma classified_run:
  assumes "get_url_type e (strip text) = Some t" "t \<noteq> []"
      and "reply_text_fault e (PROCESSING_MESSAGE e) = None"
      and "platform_of t = Some pl"
      and "downloader e pl (strip text) (files s) = (r, fs)"
  shows "\<exists>s1. trace s1 = trace s @ prologue e (strip text) t @ [Call_downloader pl (strip text)]
              \<and> db s1 = db s \<and> files s1 = fs
              \<and> handle_url e text s
                  = (case (case r of
                             Inl err \<Rightarrow> (Some err, s1)
                           | Inr None \<Rightarrow>
                               (Some (DownloadError
                                  (''Couldn't download video from '' @ t @ '': '' @ strip text)), s1)
                           | Inr (Some p) \<Rightarrow> gate e (resolved e) (strip text) t p s1) of
                       (None, s2) \<Rightarrow> (None, s2)
                     | (Some (DownloadError m), s2) \<Rightarrow>
                         on_download_error e (resolved e) (strip text) t m s2
                     | (Some (OtherError m), s2) \<Rightarrow>
                         on_unexpected e (resolved e) (strip text) t m s2)"
proof -
  let ?s0 = "emit (Log INFO (Attempting_to_download t (strip text)))
               (emit (Reply_text (PROCESSING_MESSAGE e))
                  (snd (resolve_user e (emit (Log INFO (Received_URL (strip text))) s))))"
  let ?s1 = "snd (call_downloader e pl (strip text) ?s0)"
  have f: "files ?s0 = files s"
    by simp
  have "fst (call_downloader e pl (strip text) ?s0) = r" "files ?s1 = fs"
    using assms(5) by (simp_all add: call_downloader_fst call_downloader_files)
  moreover have "trace ?s1 = trace s @ prologue e (strip text) t @ [Call_downloader pl (strip text)]"
    by (simp add: call_downloader_trace resolve_user_trace prologue_def)
  moreover have "db ?s1 = db s"
    by simp
  ultimately show ?thesis
    by (intro exI [of _ ?s1])
       (simp add: handle_url_classified [OF assms(1,2)] pipeline_replied [OF assms(3)]
          try_body_known [OF assms(4)] case_prod_beta)
qed

lemma raised_download_error_run:
  assumes "get_url_type e (strip text) = Some t" "t \<noteq> []"
      and "reply_text_fault e (PROCESSING_MESSAGE e) = None"
      and "platform_of t = Some pl"
      and "downloader e pl (strip text) (files s) = (Inl (DownloadError m), fs)"
  shows "fst (handle_url e text s)
           = map_option OtherError (edit_text_fault e (detailed_message (ERROR_MESSAGE e) m))"
    and "trace (snd (handle_url e text s))
           = trace s @ prologue e (strip text) t @ [Call_downloader pl (strip text)]
             @ download_error_events e (resolved e) (strip text) t m"
    and "db (snd (handle_url e text s))
           = db s @ recorded e (resolved e) (strip text) t None ''failed'' (Some m)"
    and "files (snd (handle_url e text s)) = fs"
proof -
  from classified_run [OF assms] obtain s1 where
    "trace s1 = trace s @ prologue e (strip text) t @ [Call_downloader pl (strip text)]"
    "db s1 = db s" "files s1 = fs"
    "handle_url e text s = on_download_error e (resolved e) (strip text) t m s1"
    by auto
  then show "fst (handle_url e text s)
           = map_option OtherError (edit_text_fault e (detailed_message (ERROR_MESSAGE e) m))"
    and "trace (snd (handle_url e text s))
           = trace s @ prologue e (strip text) t @ [Call_downloader pl (strip text)]
             @ download_error_events e (resolved e) (strip text) t m"
    and "db (snd (handle_url e text s))
           = db s @ recorded e (resolved e) (strip text) t None ''failed'' (Some m)"
    and "files (snd (handle_url e text s)) = fs"
    by (simp_all add: handler_results on_download_error_db)
qed

lemma raised_other_run:
  assumes "get_url_type e (strip text) = Some t" "t \<noteq> []"
      and "reply_text_fault e (PROCESSING_MESSAGE e) = None"
      and "platform_of t = Some pl"
      and "downloader e pl (strip text) (files s) = (Inl (OtherError m), fs)"
  shows "fst (handle_url e text s) = map_option OtherError (edit_text_fault e (unexpected_reply e))"
    and "trace (snd (handle_url e text s))
           = trace s @ prologue e (strip text) t @ [Call_downloader pl (strip text)]
             @ unexpected_events e (resolved e) (strip text) t m"
    and "db (snd (handle_url e text s))
           = db s @ recorded e (resolved e) (strip text) t None ''failed''
                      (Some (''Unexpected error: '' @ m))"
    and "files (snd (handle_url e text s)) = fs"
proof -
  from classified_run [OF assms] obtain s1 where
    "trace s1 = trace s @ prologue e (strip text) t @ [Call_downloader pl (strip text)]"
    "db s1 = db s" "files s1 = fs"
    "handle_url e text s = on_unexpected e (resolved e) (strip text) t m s1"
    by auto
  then show "fst (handle_url e text s) = map_option OtherError (edit_text_fault e (unexpected_reply e))"
    and "trace (snd (handle_url e text s))
           = trace s @ prologue e (strip text) t @ [Call_downloader pl (strip text)]
             @ unexpected_events e (resolved e) (strip text) t m"
    and "db (snd (handle_url e text s))
           = db s @ recorded e (resolved e) (strip text) t None ''failed''
                      (Some (''Unexpected error: '' @ m))"
    and "files (snd (handle_url e text s)) = fs"
    using assms(2) by (simp_all add: handler_results on_unexpected_db)
qed

lemma empty_run:
  assumes "get_url_type e (strip text) = Some t" "t \<noteq> []"
      and "reply_text_fault e (PROCESSING_MESSAGE e) = None"
      and "platform_of t = Some pl"
      and "downloader e pl (strip text) (files s) = (Inr None, fs)"
  shows "fst (handle_url e text s)
           = map_option OtherError
               (edit_text_fault e (detailed_message (ERROR_MESSAGE e)
                  (''Couldn't download video from '' @ t @ '': '' @ strip text)))"
    and "trace (snd (handle_url e text s))
           = trace s @ prologue e (strip text) t @ [Call_downloader pl (strip text)]
             @ download_error_events e (resolved e) (strip text) t
                 (''Couldn't download video from '' @ t @ '': '' @ strip text)"
    and "db (snd (handle_url e text s))
           = db s @ recorded e (resolved e) (strip text) t None ''failed''
                      (Some (''Couldn't download video from '' @ t @ '': '' @ strip text))"
    and "files (snd (handle_url e text s)) = fs"
proof -
  from classified_run [OF assms] obtain s1 where
    "trace s1 = trace s @ prologue e (strip text) t @ [Call_downloader pl (strip text)]"
    "db s1 = db s" "files s1 = fs"
    "handle_url e text s
       = on_download_error e (resolved e) (strip text) t
           (''Couldn't download video from '' @ t @ '': '' @ strip text) s1"
    by auto
  then show "fst (handle_url e text s)
           = map_option OtherError
               (edit_text_fault e (detailed_message (ERROR_MESSAGE e)
                  (''Couldn't download video from '' @ t @ '': '' @ strip text)))"
    and "trace (snd (handle_url e text s))
           = trace s @ prologue e (strip text) t @ [Call_downloader pl (strip text)]
             @ download_error_events e (resolved e) (strip text) t
                 (''Couldn't download video from '' @ t @ '': '' @ strip text)"
    and "db (snd (handle_url e text s))
           = db s @ recorded e (resolved e) (strip text) t None ''failed''
                      (Some (''Couldn't download video from '' @ t @ '': '' @ strip text))"
    and "files (snd (handle_url e text s)) = fs"
    by (simp_all add: handler_results on_download_error_db)
qed

lemma missing_run:
  assumes "get_url_type e (strip text) = Some t" "t \<noteq> []"
      and "reply_text_fault e (PROCESSING_MESSAGE e) = None"
      and "platform_of t = Some pl"
      and "downloader e pl (strip text) (files s) = (Inr (Some p), fs)"
      and "fs p = None"
  shows "fst (handle_url e text s)
           = map_option OtherError
               (edit_text_fault e (detailed_message (ERROR_MESSAGE e)
                  ''The downloaded file could not be found.''))"
    and "trace (snd (handle_url e text s))
           = trace s @ prologue e (strip text) t
             @ [Call_downloader pl (strip text), Path_exists p False]
             @ download_error_events e (resolved e) (strip text) t
                 ''The downloaded file could not be found.''"
    and "db (snd (handle_url e text s))
           = db s @ recorded e (resolved e) (strip text) t None ''failed''
                      (Some ''The downloaded file could not be found.'')"
    and "files (snd (handle_url e text s)) = fs"
proof -
  from classified_run [OF assms(1-5)] obtain s1 where s1:
    "trace s1 = trace s @ prologue e (strip text) t @ [Call_downloader pl (strip text)]"
    "db s1 = db s" "files s1 = fs"
    "handle_url e text s
       = (case gate e (resolved e) (strip text) t p s1 of
            (None, s2) \<Rightarrow> (None, s2)
          | (Some (DownloadError m), s2) \<Rightarrow> on_download_error e (resolved e) (strip text) t m s2
          | (Some (OtherError m), s2) \<Rightarrow> on_unexpected e (resolved e) (strip text) t m s2)"
    by auto
  from s1(3) assms(6) have "files s1 p = None"
    by simp
  with s1 show "fst (handle_url e text s)
           = map_option OtherError
               (edit_text_fault e (detailed_message (ERROR_MESSAGE e)
                  ''The downloaded file could not be found.''))"
    and "trace (snd (handle_url e text s))
           = trace s @ prologue e (strip text) t
             @ [Call_downloader pl (strip text), Path_exists p False]
             @ download_error_events e (resolved e) (strip text) t
                 ''The downloaded file could not be found.''"
    and "db (snd (handle_url e text s))
           = db s @ recorded e (resolved e) (strip text) t None ''failed''
                      (Some ''The downloaded file could not be found.'')"
    and "files (snd (handle_url e text s)) = fs"
    by (simp_all add: gate_missing handler_results on_download_error_db)
qed

lemma too_large_run:
  assumes "get_url_type e (strip text) = Some t" "t \<noteq> []"
      and "reply_text_fault e (PROCESSING_MESSAGE e) = None"
      and "platform_of t = Some pl"
      and "downloader e pl (strip text) (files s) = (Inr (Some p), fs)"
      and "fs p = Some n" "50 * 1024 * 1024 < n"
  shows "fst (handle_url e text s)
           = map_option OtherError
               (edit_text_fault e
                  (case gate_record_fault e (resolved e) (strip text) t (real n / (1024 * 1024)) of
                     None \<Rightarrow> detailed_message (ERROR_MESSAGE e)
                               ''The video is too large to send via Telegram (limit: 50MB).''
                   | Some err \<Rightarrow> unexpected_reply e))"
    and "trace (snd (handle_url e text s))
           = trace s @ prologue e (strip text) t
             @ [Call_downloader pl (strip text), Path_exists p True, Get_size p n,
                Log INFO (Successfully_downloaded (real n / (1024 * 1024)))]
             @ (case resolved e of
                  None \<Rightarrow> []
                | Some v \<Rightarrow> [Record_download
                               (row v (strip text) t (Some (real n / (1024 * 1024))) ''failed''
                                  (Some ''Video too large to send (limit: 50MB)''))])
             @ (case gate_record_fault e (resolved e) (strip text) t (real n / (1024 * 1024)) of
                  None \<Rightarrow> download_error_events e (resolved e) (strip text) t
                            ''The video is too large to send via Telegram (limit: 50MB).''
                | Some err \<Rightarrow> unexpected_events e (resolved e) (strip text) t err)"
    and "db (snd (handle_url e text s))
           = db s @ recorded e (resolved e) (strip text) t (Some (real n / (1024 * 1024)))
                      ''failed'' (Some ''Video too large to send (limit: 50MB)'')
             @ (case gate_record_fault e (resolved e) (strip text) t (real n / (1024 * 1024)) of
                  None \<Rightarrow> recorded e (resolved e) (strip text) t None ''failed''
                            (Some ''The video is too large to send via Telegram (limit: 50MB).'')
                | Some err \<Rightarrow> recorded e (resolved e) (strip text) t None ''failed''
                               (Some (''Unexpected error: '' @ err)))"
    and "files (snd (handle_url e text s)) = fs"
proof -
  let ?g = "gate e (resolved e) (strip text) t p"
  from classified_run [OF assms(1-5)] obtain s1 where s1:
    "trace s1 = trace s @ prologue e (strip text) t @ [Call_downloader pl (strip text)]"
    "db s1 = db s" "files s1 = fs"
    "handle_url e text s
       = (case ?g s1 of
            (None, s2) \<Rightarrow> (None, s2)
          | (Some (DownloadError m), s2) \<Rightarrow> on_download_error e (resolved e) (strip text) t m s2
          | (Some (OtherError m), s2) \<Rightarrow> on_unexpected e (resolved e) (strip text) t m s2)"
    by auto
  from s1(3) assms(6) have f: "files s1 p = Some n"
    by simp
  note g = gate_too_large_fst [OF f assms(7), of e "resolved e" "strip text" t]
    gate_too_large_trace [OF f assms(7), of e "resolved e" "strip text" t]
    gate_too_large_db [OF f assms(7), of e "resolved e" "strip text" t]
    gate_too_large_files [OF f assms(7), of e "resolved e" "strip text" t]
  have h: "handle_url e text s
       = (case gate_record_fault e (resolved e) (strip text) t (real n / (1024 * 1024)) of
            None \<Rightarrow> on_download_error e (resolved e) (strip text) t
                      ''The video is too large to send via Telegram (limit: 50MB).'' (snd (?g s1))
          | Some err \<Rightarrow> on_unexpected e (resolved e) (strip text) t err (snd (?g s1)))"
    using g(1) by (simp add: s1(4) case_prod_beta split: option.splits)
  show "fst (handle_url e text s)
           = map_option OtherError
               (edit_text_fault e
                  (case gate_record_fault e (resolved e) (strip text) t (real n / (1024 * 1024)) of
                     None \<Rightarrow> detailed_message (ERROR_MESSAGE e)
                               ''The video is too large to send via Telegram (limit: 50MB).''
                   | Some err \<Rightarrow> unexpected_reply e))"
    by (simp add: h handler_results split: option.splits)
  show "trace (snd (handle_url e text s))
           = trace s @ prologue e (strip text) t
             @ [Call_downloader pl (strip text), Path_exists p True, Get_size p n,
                Log INFO (Successfully_downloaded (real n / (1024 * 1024)))]
             @ (case resolved e of
                  None \<Rightarrow> []
                | Some v \<Rightarrow> [Record_download
                               (row v (strip text) t (Some (real n / (1024 * 1024))) ''failed''
                                  (Some ''Video too large to send (limit: 50MB)''))])
             @ (case gate_record_fault e (resolved e) (strip text) t (real n / (1024 * 1024)) of
                  None \<Rightarrow> download_error_events e (resolved e) (strip text) t
                            ''The video is too large to send via Telegram (limit: 50MB).''
                | Some err \<Rightarrow> unexpected_events e (resolved e) (strip text) t err)"
    using assms(2) by (simp add: h handler_results g(2) s1(1) split: option.splits)
  show "db (snd (handle_url e text s))
           = db s @ recorded e (resolved e) (strip text) t (Some (real n / (1024 * 1024)))
                      ''failed'' (Some ''Video too large to send (limit: 50MB)'')
             @ (case gate_record_fault e (resolved e) (strip text) t (real n / (1024 * 1024)) of
                  None \<Rightarrow> recorded e (resolved e) (strip text) t None ''failed''
                            (Some ''The video is too large to send via Telegram (limit: 50MB).'')
                | Some err \<Rightarrow> recorded e (resolved e) (strip text) t None ''failed''
                               (Some (''Unexpected error: '' @ err)))"
    using assms(2)
    by (simp add: h on_download_error_db on_unexpected_db g(3) s1(2) split: option.splits)
  show "files (snd (handle_url e text s)) = fs"
    by (simp add: h g(4) s1(3) split: option.splits)
qed

lemma accepted_run:
  assumes "get_url_type e (strip text) = Some t" "t \<noteq> []"
      and "reply_text_fault e (PROCESSING_MESSAGE e) = None"
      and "platform_of t = Some pl"
      and "downloader e pl (strip text) (files s) = (Inr (Some p), fs)"
      and "fs p = Some n" "n \<le> 50 * 1024 * 1024"
  shows "fst (handle_url e text s)
           = (case send_fault e p of
                Some err \<Rightarrow>
                  map_option OtherError
                    (edit_text_fault e (detailed_message (ERROR_MESSAGE e)
                       (''Could not send video: '' @ err)))
              | None \<Rightarrow>
                  (case delete_fault e of
                     Some err \<Rightarrow> map_option OtherError (edit_text_fault e (unexpected_reply e))
                   | None \<Rightarrow> None))"
    and "trace (snd (handle_url e text s))
           = trace s @ prologue e (strip text) t
             @ [Call_downloader pl (strip text), Path_exists p True, Get_size p n,
                Log INFO (Successfully_downloaded (real n / (1024 * 1024)))]
             @ send_events e p
             @ (case send_fault e p of
                  Some err \<Rightarrow>
                    Log ERROR (Error_sending_video err)
                    # recording_events e Failed_to_record_failed_download (resolved e)
                        (strip text) t (Some (real n / (1024 * 1024))) ''failed''
                        (Some (''Could not send video: '' @ err))
                    @ download_error_events e (resolved e) (strip text) t
                        (''Could not send video: '' @ err)
                | None \<Rightarrow>
                    Log INFO Video_successfully_sent
                    # recording_events e Failed_to_record_successful_download (resolved e)
                        (strip text) t (Some (real n / (1024 * 1024))) ''success'' None
                    @ Delete_processing
                    # (case delete_fault e of
                         Some err \<Rightarrow> unexpected_events e (resolved e) (strip text) t err
                       | None \<Rightarrow> cleanup_events e p fs))"
    and "db (snd (handle_url e text s))
           = db s
             @ (case send_fault e p of
                  Some err \<Rightarrow>
                    recorded e (resolved e) (strip text) t (Some (real n / (1024 * 1024)))
                      ''failed'' (Some (''Could not send video: '' @ err))
                    @ recorded e (resolved e) (strip text) t None ''failed''
                        (Some (''Could not send video: '' @ err))
                | None \<Rightarrow>
                    recorded e (resolved e) (strip text) t (Some (real n / (1024 * 1024)))
                      ''success'' None
                    @ (case delete_fault e of
                         Some err \<Rightarrow> recorded e (resolved e) (strip text) t None ''failed''
                                       (Some (''Unexpected error: '' @ err))
                       | None \<Rightarrow> []))"
    and "files (snd (handle_url e text s))
           = (if send_fault e p = None \<and> delete_fault e = None \<and> remove_fault e p = None
              then fs(p := None) else fs)"
proof -
  let ?mb = "real n / (1024 * 1024)"
  from classified_run [OF assms(1-5)] obtain s1 where s1:
    "trace s1 = trace s @ prologue e (strip text) t @ [Call_downloader pl (strip text)]"
    "db s1 = db s" "files s1 = fs"
    "handle_url e text s
       = (case gate e (resolved e) (strip text) t p s1 of
            (None, s2) \<Rightarrow> (None, s2)
          | (Some (DownloadError m), s2) \<Rightarrow> on_download_error e (resolved e) (strip text) t m s2
          | (Some (OtherError m), s2) \<Rightarrow> on_unexpected e (resolved e) (strip text) t m s2)"
    by auto
  from s1(3) assms(6) have f: "files s1 p = Some n"
    by simp
  let ?s2 = "emit (Log INFO (Successfully_downloaded ?mb))
               (emit (Get_size p n) (emit (Path_exists p True) s1))"
  let ?d = "deliver e (resolved e) (strip text) t p ?mb ?s2"
  have h: "handle_url e text s
       = (case send_fault e p of
            Some err \<Rightarrow> on_download_error e (resolved e) (strip text) t
                          (''Could not send video: '' @ err) (snd ?d)
          | None \<Rightarrow>
              (case delete_fault e of
                 Some err \<Rightarrow> on_unexpected e (resolved e) (strip text) t err (snd ?d)
               | None \<Rightarrow> (None, snd ?d)))"
    using deliver_fst [of e "resolved e" "strip text" t p ?mb ?s2]
    by (simp add: s1(4) gate_accepts [OF f assms(7)] case_prod_beta split: option.splits)
  show "fst (handle_url e text s)
           = (case send_fault e p of
                Some err \<Rightarrow>
                  map_option OtherError
                    (edit_text_fault e (detailed_message (ERROR_MESSAGE e)
                       (''Could not send video: '' @ err)))
              | None \<Rightarrow>
                  (case delete_fault e of
                     Some err \<Rightarrow> map_option OtherError (edit_text_fault e (unexpected_reply e))
                   | None \<Rightarrow> None))"
    by (simp add: h handler_results split: option.splits)
  show "trace (snd (handle_url e text s))
           = trace s @ prologue e (strip text) t
             @ [Call_downloader pl (strip text), Path_exists p True, Get_size p n,
                Log INFO (Successfully_downloaded (real n / (1024 * 1024)))]
             @ send_events e p
             @ (case send_fault e p of
                  Some err \<Rightarrow>
                    Log ERROR (Error_sending_video err)
                    # recording_events e Failed_to_record_failed_download (resolved e)
                        (strip text) t (Some (real n / (1024 * 1024))) ''failed''
                        (Some (''Could not send video: '' @ err))
                    @ download_error_events e (resolved e) (strip text) t
                        (''Could not send video: '' @ err)
                | None \<Rightarrow>
                    Log INFO Video_successfully_sent
                    # recording_events e Failed_to_record_successful_download (resolved e)
                        (strip text) t (Some (real n / (1024 * 1024))) ''success'' None
                    @ Delete_processing
                    # (case delete_fault e of
                         Some err \<Rightarrow> unexpected_events e (resolved e) (strip text) t err
                       | None \<Rightarrow> cleanup_events e p fs))"
    using assms(2) by (simp add: h handler_results deliver_trace s1 split: option.splits)
  show "db (snd (handle_url e text s))
           = db s
             @ (case send_fault e p of
                  Some err \<Rightarrow>
                    recorded e (resolved e) (strip text) t (Some (real n / (1024 * 1024)))
                      ''failed'' (Some (''Could not send video: '' @ err))
                    @ recorded e (resolved e) (strip text) t None ''failed''
                        (Some (''Could not send video: '' @ err))
                | None \<Rightarrow>
                    recorded e (resolved e) (strip text) t (Some (real n / (1024 * 1024)))
                      ''success'' None
                    @ (case delete_fault e of
                         Some err \<Rightarrow> recorded e (resolved e) (strip text) t None ''failed''
                                       (Some (''Unexpected error: '' @ err))
                       | None \<Rightarrow> []))"
    using assms(2)
    by (simp add: h on_download_error_db on_unexpected_db deliver_db s1 split: option.splits)
  show "files (snd (handle_url e text s))
           = (if send_fault e p = None \<and> delete_fault e = None \<and> remove_fault e p = None
              then fs(p := None) else fs)"
    using f by (simp add: h deliver_files s1 split: option.splits)
qed

lemma rejected_run:
  assumes "get_url_type e (strip text) = None \<or> get_url_type e (strip text) = Some []"
  shows "fst (handle_url e text s)
           = map_option OtherError (reply_text_fault e (INVALID_URL_MESSAGE e))"
    and "trace (snd (handle_url e text s))
           = trace s @ [Log INFO (Received_URL (strip text)),
                        Log INFO (Invalid_URL_rejected (strip text)),
                        Reply_text (INVALID_URL_MESSAGE e)]"
    and "db (snd (handle_url e text s)) = db s"
    and "files (snd (handle_url e text s)) = files s"
  using assms by (auto simp add: handle_url_def reply_text_def Let_def)

lemma unannounced_run:
  assumes "get_url_type e (strip text) = Some t" "t \<noteq> []"
      and "reply_text_fault e (PROCESSING_MESSAGE e) = Some err"
  shows "fst (handle_url e text s) = Some (OtherError err)"
    and "trace (snd (handle_url e text s))
           = trace s @ Log INFO (Received_URL (strip text)) # lookup_events e
             @ [Reply_text (PROCESSING_MESSAGE e)]"
    and "db (snd (handle_url e text s)) = db s"
    and "files (snd (handle_url e text s)) = files s"
  using assms(3)
  by (simp_all add: handle_url_classified [OF assms(1,2)] pipeline_def reply_text_def
      resolve_user_trace)

subsection \<open>Rejected, unannounced and undispatched runs\<close>

lemma send_events_sent:
  assumes "open_fault e p = None" "get_donation_keyboard e (DONATION_URL e) = Inr k"
      and "reply_video_fault e p = None"
  shows "send_fault e p = None"
    and "send_events e p
           = [Open_file p, Get_donation_keyboard (DONATION_URL e),
              Reply_video p (DOWNLOAD_SUCCESS_MESSAGE e) k]"
  using assms by (simp_all add: send_fault_def send_events_def)

lemma good_env_tiktok: "get_url_type good_env (strip tiktok_link) = Some ''tiktok''"
  by (simp add: strip_tiktok_link good_env_def)

lemma platform_of_tiktok: "platform_of ''tiktok'' = Some Tiktok"
  by (simp add: platform_of_def)

lemma platform_of_None:
  "platform_of t = None \<longleftrightarrow> t \<notin> set [''youtube'', ''instagram'', ''tiktok'', ''twitter'', ''facebook'']"
  by (simp add: platform_of_def)

lemma no_downloader_in_lookup [simp]: "filter is_call_downloader (lookup_events e) = []"
  by (simp add: lookup_events_def split: sum.splits option.splits)

lemma no_downloader_in_recording [simp]:
  "filter is_call_downloader (recording_events e lg u url t sz st em) = []"
  by (simp add: recording_events_def split: option.splits)

lemma unknown_tag_run:
  assumes "get_url_type e (strip text) = Some t" "t \<noteq> []"
      and "platform_of t = None"
      and "reply_text_fault e (PROCESSING_MESSAGE e) = None"
  shows "fst (handle_url e text s)
           = map_option OtherError
               (edit_text_fault e (detailed_message (ERROR_MESSAGE e)
                  (''Couldn't download video from '' @ t @ '': '' @ strip text)))"
    and "trace (snd (handle_url e text s))
           = trace s @ Log INFO (Received_URL (strip text)) # lookup_events e
             @ [Reply_text (PROCESSING_MESSAGE e),
                Log INFO (Attempting_to_download t (strip text)),
                Log ERROR (Download_error (''Couldn't download video from '' @ t @ '': '' @ strip text))]
             @ recording_events e Failed_to_record_download (resolved e) (strip text) t None ''failed''
                  (Some (''Couldn't download video from '' @ t @ '': '' @ strip text))
             @ [Edit_text (detailed_message (ERROR_MESSAGE e)
                  (''Couldn't download video from '' @ t @ '': '' @ strip text))]"
    and "db (snd (handle_url e text s))
           = db s @ recorded e (resolved e) (strip text) t None ''failed''
                      (Some (''Couldn't download video from '' @ t @ '': '' @ strip text))"
    and "files (snd (handle_url e text s)) = files s"
  by (simp_all add: handle_url_classified [OF assms(1,2)] pipeline_replied [OF assms(4)]
      try_body_unknown [OF assms(3)] on_download_error_fst on_download_error_trace
      on_download_error_db resolve_user_trace)

lemma good_env_vimeo: "get_url_type good_env (strip vimeo_link) = Some ''vimeo''"
  by (simp add: strip_vimeo_link good_env_def) (simp add: vimeo_link_def tiktok_link_def)

subsection \<open>Every run takes one of nine paths\<close>

lemma run_cases [case_names rejected unannounced unknown raised raised_other empty missing too_large accepted]:
  obtains "get_url_type e (strip inp) = None \<or> get_url_type e (strip inp) = Some []"
  | t err where "get_url_type e (strip inp) = Some t" "t \<noteq> []"
      "reply_text_fault e (PROCESSING_MESSAGE e) = Some err"
  | t where "get_url_type e (strip inp) = Some t" "t \<noteq> []"
      "reply_text_fault e (PROCESSING_MESSAGE e) = None" "platform_of t = None"
  | t pl m fs where "get_url_type e (strip inp) = Some t" "t \<noteq> []"
      "reply_text_fault e (PROCESSING_MESSAGE e) = None" "platform_of t = Some pl"
      "downloader e pl (strip inp) (files s) = (Inl (DownloadError m), fs)"
  | t pl m fs where "get_url_type e (strip inp) = Some t" "t \<noteq> []"
      "reply_text_fault e (PROCESSING_MESSAGE e) = None" "platform_of t = Some pl"
      "downloader e pl (strip inp) (files s) = (Inl (OtherError m), fs)"
  | t pl fs where "get_url_type e (strip inp) = Some t" "t \<noteq> []"
      "reply_text_fault e (PROCESSING_MESSAGE e) = None" "platform_of t = Some pl"
      "downloader e pl (strip inp) (files s) = (Inr None, fs)"
  | t pl p fs where "get_url_type e (strip inp) = Some t" "t \<noteq> []"
      "reply_text_fault e (PROCESSING_MESSAGE e) = None" "platform_of t = Some pl"
      "downloader e pl (strip inp) (files s) = (Inr (Some p), fs)" "fs p = None"
  | t pl p fs n where "get_url_type e (strip inp) = Some t" "t \<noteq> []"
      "reply_text_fault e (PROCESSING_MESSAGE e) = None" "platform_of t = Some pl"
      "downloader e pl (strip inp) (files s) = (Inr (Some p), fs)" "fs p = Some n"
      "50 * 1024 * 1024 < n"
  | t pl p fs n where "get_url_type e (strip inp) = Some t" "t \<noteq> []"
      "reply_text_fault e (PROCESSING_MESSAGE e) = None" "platform_of t = Some pl"
      "downloader e pl (strip inp) (files s) = (Inr (Some p), fs)" "fs p = Some n"
      "n \<le> 50 * 1024 * 1024"
proof (cases "get_url_type e (strip inp)")
  case None
  then show ?thesis using that(1) by simp
next
  case (Some t)
  show ?thesis
  proof (cases "t = []")
    case True
    with Some show ?thesis using that(1) by simp
  next
    case ne: False
    show ?thesis
    proof (cases "reply_text_fault e (PROCESSING_MESSAGE e)")
      case (Some err)
      with \<open>get_url_type e (strip inp) = Some t\<close> ne show ?thesis using that(2) by simp
    next
      case ok: None
      note c = \<open>get_url_type e (strip inp) = Some t\<close> ne ok
      show ?thesis
      proof (cases "platform_of t")
        case None
        with c show ?thesis using that(3) by simp
      next
        case (Some pl)
        obtain r fs where d: "downloader e pl (strip inp) (files s) = (r, fs)"
          by (cases "downloader e pl (strip inp) (files s)")
        show ?thesis
        proof (cases r)
          case (Inl x)
          with c Some d show ?thesis using that(4,5) by (cases x) simp_all
        next
          case (Inr found)
          show ?thesis
          proof (cases found)
            case None
            with c Some d Inr show ?thesis using that(6) by simp
          next
            case found: (Some p)
            show ?thesis
            proof (cases "fs p")
              case None
              with c Some d Inr found show ?thesis using that(7) by simp
            next
              case size: (Some n)
              show ?thesis
              proof (cases "50 * 1024 * 1024 < n")
                case True
                with c Some d Inr found size show ?thesis using that(8) by simp
              next
                case False
                then have "n \<le> 50 * 1024 * 1024" by simp
                with c Some d Inr found size show ?thesis using that(9) by simp
              qed
            qed
          qed
        qed
      qed
    qed
  qed
qed

lemma null_user_records_nothing:
  assumes "resolved e = None"
  shows "db (snd (handle_url e inp s)) = db s"
proof -
  note shapes = run_cases [where e = e and inp = inp and s = s]
  show ?thesis
  proof (cases rule: shapes)
  case rejected
  then show ?thesis by (simp add: rejected_run)
next
  case (unannounced t err)
  then show ?thesis by (simp add: unannounced_run)
next
  case (unknown t)
  then show ?thesis by (simp add: unknown_tag_run assms recorded_def)
next
  case (raised t pl m fs)
  then show ?thesis by (simp add: raised_download_error_run assms recorded_def)
next
  case (raised_other t pl m fs)
  then show ?thesis by (simp add: raised_other_run assms recorded_def)
next
  case (empty t pl fs)
  then show ?thesis by (simp add: empty_run assms recorded_def)
next
  case (missing t pl p fs)
  then show ?thesis by (simp add: missing_run assms recorded_def)
next
  case (too_large t pl p fs n)
  then show ?thesis by (simp add: too_large_run assms recorded_def split: option.splits)
next
  case (accepted t pl p fs n)
  then show ?thesis by (simp add: accepted_run assms recorded_def split: option.splits)
qed
qed

lemma recorded_some:
  assumes "recorder_fault e (row u url t sz st em) = None"
  shows "recorded e (Some u) url t sz st em = [row u url t sz st em]"
  using assms by (simp add: recorded_def)

lemma row_fields [simp]:
  "d_user_id (row u url t sz st em) = user_id u" "d_url (row u url t sz st em) = url"
  "d_source_type (row u url t sz st em) = t" "d_file_size (row u url t sz st em) = sz"
  "d_status (row u url t sz st em) = st" "d_error_message (row u url t sz st em) = em"
  by (simp_all add: row_def)

subsection \<open>The concrete environments\<close>

lemma good_env_tiktok_download:
  "downloader (good_env\<lparr>download_tiktok_video := writes n\<rparr>) Tiktok url fs
     = (Inr (Some video_file), fs(video_file \<mapsto> n))"
  "downloader good_env Tiktok url fs
     = (Inr (Some video_file), fs(video_file \<mapsto> 3 * 1024 * 1024))"
  by (simp_all add: downloader_def good_env_def writes_def)

lemma good_env_sends: "send_fault good_env p = None"
  "send_events good_env p
     = [Open_file p, Get_donation_keyboard ''https://example.org/donate'',
        Reply_video p ''Here is your video.'' (Some (Keyboard ''https://example.org/donate''))]"
  by (simp_all add: send_fault_def send_events_def good_env_def)

lemma good_env_oracles:
  "reply_text_fault good_env m = None" "edit_text_fault good_env m = None"
  "delete_fault good_env = None" "remove_fault good_env p = None"
  "rmdir_fault good_env p = None" "recorder_fault good_env r = None"
  "PROCESSING_MESSAGE good_env = ''Processing...''"
  "ERROR_MESSAGE good_env = ''Something went wrong.''"
  "get_or_create_user good_env = Inr (Some alice)" "resolved good_env = Some alice"
  "gettempdir good_env = ''/tmp''"
  by (simp_all add: good_env_def resolved_def)

lemma no_profile_env_oracles:
  "get_url_type no_profile_env (strip tiktok_link) = Some ''tiktok''"
  "reply_text_fault no_profile_env m = None" "edit_text_fault no_profile_env m = None"
  "delete_fault no_profile_env = None" "resolved no_profile_env = None"
  "PROCESSING_MESSAGE no_profile_env = ''Processing...''"
  "send_fault no_profile_env p = None"
  "downloader no_profile_env Tiktok url fs
     = (Inr (Some video_file), fs(video_file \<mapsto> 3 * 1024 * 1024))"
  by (simp_all add: no_profile_env_def good_env_def resolved_def send_fault_def
      downloader_def writes_def strip_tiktok_link)

lemma big_env_oracles:
  "get_url_type big_env (strip tiktok_link) = Some ''tiktok''"
  "reply_text_fault big_env m = None" "edit_text_fault big_env m = None"
  "resolved big_env = Some alice" "recorder_fault big_env r = None"
  "PROCESSING_MESSAGE big_env = ''Processing...''"
  "ERROR_MESSAGE big_env = ''Something went wrong.''"
  "downloader big_env Tiktok url fs
     = (Inr (Some video_file), fs(video_file \<mapsto> 60 * 1024 * 1024))"
  by (simp_all add: big_env_def good_env_def resolved_def downloader_def writes_def
      strip_tiktok_link)

lemma no_video_in_summaries [simp]:
  "filter is_reply_video (lookup_events e) = []"
  "filter is_reply_video (prologue e url t) = []"
  "filter is_reply_video (recording_events e lg u url t sz st em) = []"
  "filter is_reply_video (download_error_events e u url t m) = []"
  "filter is_reply_video (unexpected_events e u url t m) = []"
  "filter is_reply_video (cleanup_events e p fs) = []"
  by (simp_all add: lookup_events_def prologue_def recording_events_def
      download_error_events_def unexpected_events_def cleanup_events_def
      split: sum.splits option.splits)

lemma init_simps [simp]: "trace init = []" "db init = []" "files init = Map.empty"
  by (simp_all add: init_def)

lemma too_large_text_is_classified:
  "user_friendly_message g ''The video is too large to send via Telegram (limit: 50MB).''
     = too_large_message"
  by (simp add: user_friendly_message_def lower_def lower_char_def)

lemma edge_env_oracles:
  "get_url_type edge_env (strip tiktok_link) = Some ''tiktok''"
  "reply_text_fault edge_env m = None" "edit_text_fault edge_env m = None"
  "delete_fault edge_env = None" "remove_fault edge_env p = None"
  "resolved edge_env = Some alice" "recorder_fault edge_env r = None"
  "PROCESSING_MESSAGE edge_env = ''Processing...''"
  "send_fault edge_env p = None"
  "send_events edge_env p
     = [Open_file p, Get_donation_keyboard ''https://example.org/donate'',
        Reply_video p ''Here is your video.'' (Some (Keyboard ''https://example.org/donate''))]"
  "downloader edge_env Tiktok url fs
     = (Inr (Some video_file), fs(video_file \<mapsto> 50 * 1024 * 1024))"
  by (simp_all add: edge_env_def good_env_def resolved_def send_fault_def send_events_def
      downloader_def writes_def strip_tiktok_link)

lemma good_env_run_facts:
  "get_url_type good_env (strip tiktok_link) = Some ''tiktok''"
  "reply_text_fault good_env (PROCESSING_MESSAGE good_env) = None"
  "downloader good_env Tiktok (strip tiktok_link) (files init)
     = (Inr (Some video_file), (files init)(video_file \<mapsto> 3 * 1024 * 1024))"
  "((files init)(video_file \<mapsto> 3 * 1024 * 1024)) video_file = Some (3 * 1024 * 1024)"
  "(3 * 1024 * 1024 :: nat) \<le> 50 * 1024 * 1024"
  by (simp_all add: good_env_tiktok good_env_oracles good_env_tiktok_download)

lemma big_env_run_facts:
  "get_url_type big_env (strip tiktok_link) = Some ''tiktok''"
  "reply_text_fault big_env (PROCESSING_MESSAGE big_env) = None"
  "downloader big_env Tiktok (strip tiktok_link) (files init)
     = (Inr (Some video_file), (files init)(video_file \<mapsto> 60 * 1024 * 1024))"
  "((files init)(video_file \<mapsto> 60 * 1024 * 1024)) video_file = Some (60 * 1024 * 1024)"
  "(50 * 1024 * 1024 :: nat) < 60 * 1024 * 1024"
  by (simp_all add: big_env_oracles)

lemma big_env_lookup: "get_or_create_user big_env = Inr (Some alice)"
  by (simp add: big_env_def good_env_def)

lemma tiktok_tag: "''tiktok'' \<noteq> []"
  by simp

lemma dirname_video_file: "dirname video_file = ''/tmp/tmpab12''"
  by (simp add: dirname_def video_file_def)

lemma db_down_env_oracles:
  "get_url_type db_down_env (strip tiktok_link) = Some ''tiktok''"
  "reply_text_fault db_down_env m = None" "edit_text_fault db_down_env m = None"
  "resolved db_down_env = Some alice" "recorder_fault db_down_env r = Some ''connection lost''"
  "PROCESSING_MESSAGE db_down_env = ''Processing...''"
  "ERROR_MESSAGE db_down_env = ''Something went wrong.''"
  "downloader db_down_env Tiktok url fs
     = (Inr (Some video_file), fs(video_file \<mapsto> 60 * 1024 * 1024))"
  by (simp_all add: db_down_env_def big_env_def good_env_def resolved_def downloader_def
      writes_def strip_tiktok_link)

lemma small_db_down_env_oracles:
  "get_url_type small_db_down_env (strip tiktok_link) = Some ''tiktok''"
  "reply_text_fault small_db_down_env m = None" "edit_text_fault small_db_down_env m = None"
  "delete_fault small_db_down_env = None"
  "resolved small_db_down_env = Some alice"
  "recorder_fault small_db_down_env r = Some ''connection lost''"
  "PROCESSING_MESSAGE small_db_down_env = ''Processing...''"
  "send_fault small_db_down_env p = None"
  "send_events small_db_down_env p
     = [Open_file p, Get_donation_keyboard ''https://example.org/donate'',
        Reply_video p ''Here is your video.'' (Some (Keyboard ''https://example.org/donate''))]"
  "downloader small_db_down_env Tiktok url fs
     = (Inr (Some video_file), fs(video_file \<mapsto> 3 * 1024 * 1024))"
  by (simp_all add: small_db_down_env_def good_env_def resolved_def downloader_def
      send_fault_def send_events_def writes_def strip_tiktok_link)

subsection \<open>Which events a run can contain\<close>

lemmas summary_defs = prologue_def lookup_events_def recording_events_def
  download_error_events_def unexpected_events_def cleanup_events_def send_events_def

lemma handler_events_last:
  "download_error_events e u url t m \<noteq> []"
  "last (download_error_events e u url t m) = Edit_text (detailed_message (ERROR_MESSAGE e) m)"
  "unexpected_events e u url t m \<noteq> []"
  "last (unexpected_events e u url t m) = Edit_text (unexpected_reply e)"
  by (simp_all add: download_error_events_def unexpected_events_def)

lemma handler_marks:
  "Log ERROR (Download_error m) \<in> set (download_error_events e u url t m') \<longleftrightarrow> m = m'"
  "Log ERROR (Unexpected_error m) \<notin> set (download_error_events e u url t m')"
  "Log ERROR (Unexpected_error m) \<in> set (unexpected_events e u url t m') \<longleftrightarrow> m = m'"
  "Log ERROR (Download_error m) \<notin> set (unexpected_events e u url t m')"
  by (auto simp add: download_error_events_def unexpected_events_def recording_events_def
      split: option.splits)

lemma no_marks:
  "Log ERROR (Download_error m) \<notin> set (prologue e url t)"
  "Log ERROR (Unexpected_error m) \<notin> set (prologue e url t)"
  "Log ERROR (Download_error m) \<notin> set (send_events e p)"
  "Log ERROR (Unexpected_error m) \<notin> set (send_events e p)"
  "Log ERROR (Download_error m) \<notin> set (cleanup_events e p fs)"
  "Log ERROR (Unexpected_error m) \<notin> set (cleanup_events e p fs)"
  "Log ERROR (Download_error m)
     \<notin> set (recording_events e Failed_to_record_failed_download u url t sz st em)"
  "Log ERROR (Unexpected_error m)
     \<notin> set (recording_events e Failed_to_record_failed_download u url t sz st em)"
  "Log ERROR (Download_error m)
     \<notin> set (recording_events e Failed_to_record_successful_download u url t sz st em)"
  "Log ERROR (Unexpected_error m)
     \<notin> set (recording_events e Failed_to_record_successful_download u url t sz st em)"
  "Log ERROR (Download_error m) \<notin> set (lookup_events e)"
  "Log ERROR (Unexpected_error m) \<notin> set (lookup_events e)"
  by (auto simp add: summary_defs split: sum.splits option.splits)

lemma reply_after_handler_log:
  assumes "trace s = []"
  shows "Log ERROR (Download_error m) \<in> set (trace (snd (handle_url e inp s)))
           \<Longrightarrow> last (trace (snd (handle_url e inp s)))
                 = Edit_text (detailed_message (ERROR_MESSAGE e) m)"
    and "Log ERROR (Unexpected_error m) \<in> set (trace (snd (handle_url e inp s)))
           \<Longrightarrow> last (trace (snd (handle_url e inp s))) = Edit_text (unexpected_reply e)"
proof -
  note shapes = run_cases [where e = e and inp = inp and s = s]
  have "(Log ERROR (Download_error m) \<in> set (trace (snd (handle_url e inp s)))
           \<longrightarrow> last (trace (snd (handle_url e inp s)))
                 = Edit_text (detailed_message (ERROR_MESSAGE e) m))
      \<and> (Log ERROR (Unexpected_error m) \<in> set (trace (snd (handle_url e inp s)))
           \<longrightarrow> last (trace (snd (handle_url e inp s))) = Edit_text (unexpected_reply e))"
  proof (cases rule: shapes)
    case rejected
    then show ?thesis by (simp add: rejected_run assms)
  next
    case (unannounced t err)
    then show ?thesis by (simp add: unannounced_run assms no_marks)
  next
    case (unknown t)
    have "trace (snd (handle_url e inp s))
        = prologue e (strip inp) t
          @ download_error_events e (resolved e) (strip inp) t
              (''Couldn't download video from '' @ t @ '': '' @ strip inp)"
      using unknown by (simp add: unknown_tag_run assms prologue_def download_error_events_def)
    then show ?thesis by (auto simp add: handler_marks no_marks handler_events_last)
  next
    case (raised t pl m' fs)
    then show ?thesis
      by (auto simp add: raised_download_error_run assms handler_marks no_marks handler_events_last)
  next
    case (raised_other t pl m' fs)
    then show ?thesis
      by (auto simp add: raised_other_run assms handler_marks no_marks handler_events_last)
  next
    case (empty t pl fs)
    then show ?thesis
      by (auto simp add: empty_run assms handler_marks no_marks handler_events_last)
  next
    case (missing t pl p fs)
    then show ?thesis
      by (auto simp add: missing_run assms handler_marks no_marks handler_events_last)
  next
    case (too_large t pl p fs n)
    then show ?thesis
      by (auto simp add: too_large_run assms handler_marks no_marks handler_events_last split: option.splits)
  next
    case (accepted t pl p fs n)
    then show ?thesis
      by (auto simp add: accepted_run assms handler_marks no_marks handler_events_last split: option.splits)
  qed
  then show "Log ERROR (Download_error m) \<in> set (trace (snd (handle_url e inp s)))
           \<Longrightarrow> last (trace (snd (handle_url e inp s)))
                 = Edit_text (detailed_message (ERROR_MESSAGE e) m)"
    and "Log ERROR (Unexpected_error m) \<in> set (trace (snd (handle_url e inp s)))
           \<Longrightarrow> last (trace (snd (handle_url e inp s))) = Edit_text (unexpected_reply e)"
    by simp_all
qed

lemma broken_env_oracles:
  "get_url_type broken_env (strip tiktok_link) = Some ''tiktok''"
  "reply_text_fault broken_env m = None" "edit_text_fault broken_env m = None"
  "resolved broken_env = Some alice" "recorder_fault broken_env r = None"
  "PROCESSING_MESSAGE broken_env = ''Processing...''"
  "ERROR_MESSAGE broken_env = ''Something went wrong.''"
  "downloader broken_env Tiktok url fs = (Inl (OtherError ''boom''), fs)"
  by (simp_all add: broken_env_def good_env_def resolved_def downloader_def fails_def
      strip_tiktok_link)

lemma broken_env_run_facts:
  "reply_text_fault broken_env (PROCESSING_MESSAGE broken_env) = None"
  "downloader broken_env Tiktok (strip tiktok_link) (files init)
     = (Inl (OtherError ''boom''), files init)"
  by (simp_all add: broken_env_oracles)

lemma video_in_filter: "x \<in> set xs \<Longrightarrow> is_reply_video x \<Longrightarrow> filter is_reply_video xs \<noteq> []"
  by (induction xs) auto

lemma no_video_no_member:
  "filter is_reply_video xs = [] \<Longrightarrow> Reply_video p c k \<notin> set xs"
  using video_in_filter [of "Reply_video p c k" xs] by auto

lemma video_of_send_events: "Reply_video q c k \<in> set (send_events e p) \<Longrightarrow> q = p"
  by (auto simp add: send_events_def split: sum.splits option.splits)

lemma no_gate_events:
  "Path_exists q b \<notin> set (prologue e url t)" "Get_size q n \<notin> set (prologue e url t)"
  "Path_exists q b \<notin> set (lookup_events e)" "Get_size q n \<notin> set (lookup_events e)"
  "Path_exists q b \<notin> set (send_events e p)" "Get_size q n \<notin> set (send_events e p)"
  "Path_exists q b \<notin> set (cleanup_events e p fs)" "Get_size q n \<notin> set (cleanup_events e p fs)"
  "Path_exists q b \<notin> set (recording_events e lg u url t sz st em)"
  "Get_size q n \<notin> set (recording_events e lg u url t sz st em)"
  "Path_exists q b \<notin> set (download_error_events e u url t m)"
  "Get_size q n \<notin> set (download_error_events e u url t m)"
  "Path_exists q b \<notin> set (unexpected_events e u url t m)"
  "Get_size q n \<notin> set (unexpected_events e u url t m)"
  by (auto simp add: summary_defs split: sum.splits option.splits)

lemma relay_after_gate:
  assumes "trace s = []"
  shows "Reply_video p c k \<in> set (trace (snd (handle_url e inp s)))
           \<Longrightarrow> \<exists>pre n post. trace (snd (handle_url e inp s))
                   = pre @ Path_exists p True # Get_size p n # post
                 \<and> n \<le> 50 * 1024 * 1024 \<and> filter is_reply_video pre = []"
    and "Path_exists q False \<in> set (trace (snd (handle_url e inp s)))
           \<Longrightarrow> filter is_reply_video (trace (snd (handle_url e inp s))) = []
             \<and> Log ERROR (Download_error ''The downloaded file could not be found.'')
                  \<in> set (trace (snd (handle_url e inp s)))"
    and "Get_size q n' \<in> set (trace (snd (handle_url e inp s))) \<Longrightarrow> 50 * 1024 * 1024 < n'
           \<Longrightarrow> filter is_reply_video (trace (snd (handle_url e inp s))) = []"
proof -
  let ?T = "trace (snd (handle_url e inp s))"
  note shapes = run_cases [where e = e and inp = inp and s = s]
  have "(Reply_video p c k \<in> set ?T
           \<longrightarrow> (\<exists>pre n post. ?T = pre @ Path_exists p True # Get_size p n # post
                 \<and> n \<le> 50 * 1024 * 1024 \<and> filter is_reply_video pre = []))
      \<and> (Path_exists q False \<in> set ?T
           \<longrightarrow> filter is_reply_video ?T = []
             \<and> Log ERROR (Download_error ''The downloaded file could not be found.'') \<in> set ?T)
      \<and> (Get_size q n' \<in> set ?T \<and> 50 * 1024 * 1024 < n' \<longrightarrow> filter is_reply_video ?T = [])"
  proof (cases rule: shapes)
    case rejected
    then show ?thesis by (simp add: rejected_run assms)
  next
    case (unannounced t err)
    then have T: "?T = Log INFO (Received_URL (strip inp)) # lookup_events e
                     @ [Reply_text (PROCESSING_MESSAGE e)]"
      by (simp add: unannounced_run assms)
    have "filter is_reply_video ?T = []"
      by (simp add: T)
    moreover have "Path_exists q False \<notin> set ?T"
      by (simp add: T no_gate_events)
    ultimately show ?thesis
      using no_video_no_member [of ?T p c k] by simp
  next
    case (unknown t)
    then have T: "?T = prologue e (strip inp) t
                     @ download_error_events e (resolved e) (strip inp) t
                         (''Couldn't download video from '' @ t @ '': '' @ strip inp)"
      by (simp add: unknown_tag_run assms prologue_def download_error_events_def)
    have "filter is_reply_video ?T = []"
      by (simp add: T)
    moreover have "Path_exists q False \<notin> set ?T"
      by (simp add: T no_gate_events)
    ultimately show ?thesis
      using no_video_no_member [of ?T p c k] by simp
  next
    case (raised t pl m fs)
    note T = raised_download_error_run(2) [OF raised]
    have "filter is_reply_video ?T = []"
      by (simp add: T assms)
    moreover have "Path_exists q False \<notin> set ?T"
      by (simp add: T assms no_gate_events)
    ultimately show ?thesis
      using no_video_no_member [of ?T p c k] by simp
  next
    case (raised_other t pl m fs)
    note T = raised_other_run(2) [OF raised_other]
    have "filter is_reply_video ?T = []"
      by (simp add: T assms)
    moreover have "Path_exists q False \<notin> set ?T"
      by (simp add: T assms no_gate_events)
    ultimately show ?thesis
      using no_video_no_member [of ?T p c k] by simp
  next
    case (empty t pl fs)
    note T = empty_run(2) [OF empty]
    have "filter is_reply_video ?T = []"
      by (simp add: T assms)
    moreover have "Path_exists q False \<notin> set ?T"
      by (simp add: T assms no_gate_events)
    ultimately show ?thesis
      using no_video_no_member [of ?T p c k] by simp
  next
    case (missing t pl p' fs)
    note T = missing_run(2) [OF missing]
    have "filter is_reply_video ?T = []"
      by (simp add: T assms)
    moreover have "Log ERROR (Download_error ''The downloaded file could not be found.'') \<in> set ?T"
      by (simp add: T assms handler_marks)
    ultimately show ?thesis
      using no_video_no_member [of ?T p c k] by simp
  next
    case (too_large t pl p' fs n)
    note T = too_large_run(2) [OF too_large]
    have "filter is_reply_video ?T = []"
      by (simp add: T assms split: option.splits)
    moreover have "Path_exists q False \<notin> set ?T"
      by (simp add: T assms no_gate_events split: option.splits)
    ultimately show ?thesis
      using no_video_no_member [of ?T p c k] by simp
  next
    case (accepted t pl p' fs n)
    note T = accepted_run(2) [OF accepted]
    let ?mb = "real n / (1024 * 1024)"
    let ?rest = "case send_fault e p' of
                  Some err \<Rightarrow>
                    Log ERROR (Error_sending_video err)
                    # recording_events e Failed_to_record_failed_download (resolved e)
                        (strip inp) t (Some ?mb) ''failed''
                        (Some (''Could not send video: '' @ err))
                    @ download_error_events e (resolved e) (strip inp) t
                        (''Could not send video: '' @ err)
                | None \<Rightarrow>
                    Log INFO Video_successfully_sent
                    # recording_events e Failed_to_record_successful_download (resolved e)
                        (strip inp) t (Some ?mb) ''success'' None
                    @ Delete_processing
                    # (case delete_fault e of
                         Some err \<Rightarrow> unexpected_events e (resolved e) (strip inp) t err
                       | None \<Rightarrow> cleanup_events e p' fs)"
    have rest: "filter is_reply_video ?rest = []" "Path_exists q False \<notin> set ?rest"
      "Get_size q n' \<notin> set ?rest"
      by (simp_all add: no_gate_events split: option.splits)
    have shape: "?T = (prologue e (strip inp) t @ [Call_downloader pl (strip inp)])
                   @ Path_exists p' True # Get_size p' n
                   # (Log INFO (Successfully_downloaded ?mb) # send_events e p' @ ?rest)"
      by (simp add: T assms)
    have 1: "Reply_video p c k \<in> set ?T
           \<longrightarrow> (\<exists>pre n post. ?T = pre @ Path_exists p True # Get_size p n # post
                 \<and> n \<le> 50 * 1024 * 1024 \<and> filter is_reply_video pre = [])"
    proof
      assume "Reply_video p c k \<in> set ?T"
      then have "Reply_video p c k \<in> set (send_events e p')"
        using no_video_no_member [OF rest(1), of p c k]
          no_video_no_member [of "prologue e (strip inp) t" p c k]
        by (auto simp add: shape)
      then have "p = p'"
        by (rule video_of_send_events)
      with shape accepted(7) show "\<exists>pre n post. ?T = pre @ Path_exists p True # Get_size p n # post
                 \<and> n \<le> 50 * 1024 * 1024 \<and> filter is_reply_video pre = []"
        by (intro exI [of _ "prologue e (strip inp) t @ [Call_downloader pl (strip inp)]"]
            exI [of _ n]
            exI [of _ "Log INFO (Successfully_downloaded ?mb) # send_events e p' @ ?rest"])
           simp
    qed
    have 2: "Path_exists q False \<notin> set ?T"
      using rest(2) by (simp add: shape no_gate_events)
    have 3: "Get_size q n' \<in> set ?T \<Longrightarrow> n' = n"
      using rest(3) by (auto simp add: shape no_gate_events)
    from 1 2 3 accepted(7) show ?thesis
      by auto
  qed
  then show "Reply_video p c k \<in> set ?T
           \<Longrightarrow> \<exists>pre n post. ?T = pre @ Path_exists p True # Get_size p n # post
                 \<and> n \<le> 50 * 1024 * 1024 \<and> filter is_reply_video pre = []"
    and "Path_exists q False \<in> set ?T
           \<Longrightarrow> filter is_reply_video ?T = []
             \<and> Log ERROR (Download_error ''The downloaded file could not be found.'') \<in> set ?T"
    and "Get_size q n' \<in> set ?T \<Longrightarrow> 50 * 1024 * 1024 < n' \<Longrightarrow> filter is_reply_video ?T = []"
    by simp_all
qed

lemma lost_env_oracles:
  "get_url_type lost_env (strip tiktok_link) = Some ''tiktok''"
  "reply_text_fault lost_env m = None" "edit_text_fault lost_env m = None"
  "resolved lost_env = Some alice" "recorder_fault lost_env r = None"
  "PROCESSING_MESSAGE lost_env = ''Processing...''"
  "downloader lost_env Tiktok url fs = (Inr (Some video_file), fs)"
  by (simp_all add: lost_env_def good_env_def resolved_def downloader_def strip_tiktok_link)

lemma lost_env_run_facts:
  "reply_text_fault lost_env (PROCESSING_MESSAGE lost_env) = None"
  "downloader lost_env Tiktok (strip tiktok_link) (files init) = (Inr (Some video_file), files init)"
  "files init video_file = None"
  by (simp_all add: lost_env_oracles)

lemma private_env_oracles:
  "get_url_type private_env (strip tiktok_link) = Some ''tiktok''"
  "recording_ready private_env alice"
  "reply_text_fault private_env (PROCESSING_MESSAGE private_env) = None"
  "downloader private_env Tiktok url fs = (Inl (DownloadError ''This account is private''), fs)"
  by (simp_all add: private_env_def good_env_def recording_ready_def downloader_def fails_def
      strip_tiktok_link)

lemma empty_env_oracles:
  "get_url_type empty_env (strip tiktok_link) = Some ''tiktok''"
  "recording_ready empty_env alice"
  "reply_text_fault empty_env (PROCESSING_MESSAGE empty_env) = None"
  "downloader empty_env Tiktok url fs = (Inr None, fs)"
  by (simp_all add: empty_env_def good_env_def recording_ready_def downloader_def
      strip_tiktok_link)

lemma recording_ready_envs:
  "recording_ready good_env alice" "recording_ready broken_env alice"
  "recording_ready lost_env alice"
  by (simp_all add: recording_ready_def good_env_def broken_env_def lost_env_def)

lemma recording_readyD:
  assumes "recording_ready e u"
  shows "resolved e = Some u" "reply_text_fault e (PROCESSING_MESSAGE e) = None"
    "recorded e (Some u) url t sz st em = [row u url t sz st em]"
  using assms by (simp_all add: recording_ready_def resolved_def recorded_def)

lemma mark_in_download_error_events:
  "Log ERROR (Download_error m) \<in> set (download_error_events e u url t m)"
  "Log ERROR (Unexpected_error m) \<in> set (unexpected_events e u url t m)"
  by (simp_all add: handler_marks)

section \<open>The failure classifier\<close>

lemma chain_is_first_match: "user_friendly_message g m = classify_message_spec g m"
  by (simp add: user_friendly_message_def classify_message_spec_def patterns_def)

lemma find_first_match:
  "P x \<Longrightarrow> \<forall>y \<in> set ps. \<not> P y \<Longrightarrow> find P (ps @ x # qs) = Some x"
  by (induction ps) auto

lemma find_no_match: "\<forall>y \<in> set ps. \<not> P y \<Longrightarrow> find P ps = None"
  by (induction ps) auto

text \<open>
  C5, as stated, fails: the keyword of the second pattern is \<open>is too large\<close>, so an error
  string that contains \<open>too large\<close> without \<open>is\<close> in front gets the generic template.
\<close>

theorem too_large_keyword_counterexample:
  "contains ''too large'' (lower ''File too large'')
   \<and> user_friendly_message ''Something went wrong.'' ''File too large'' = ''Something went wrong.''
   \<and> user_friendly_message ''Something went wrong.'' ''File too large'' \<noteq> too_large_message"
  by (simp add: user_friendly_message_def lower_def lower_char_def too_large_message_def sad_def)

text \<open>
  C5, amended: the classifier is a function of the error string that agrees with a
  first-match search of the fixed ordered pattern list on the lower-cased string; the first
  matching pattern decides, the generic template is returned when none matches, a string
  containing \<open>is private\<close> gets the private-account template, and a string containing
  \<open>is too large\<close> (and not \<open>is private\<close>) gets the too-large template.
\<close>

theorem classifier_first_match_wins:
  "user_friendly_message g m = classify_message_spec g m
   \<and> (patterns = ps @ (k, t) # qs \<and> contains k (lower m)
        \<and> list_all (\<lambda>kt. \<not> contains (fst kt) (lower m)) ps
      \<longrightarrow> user_friendly_message g m = t)
   \<and> (list_all (\<lambda>kt. \<not> contains (fst kt) (lower m)) patterns
      \<longrightarrow> user_friendly_message g m = g)
   \<and> (contains ''is private'' (lower m) \<longrightarrow> user_friendly_message g m = private_account_message)
   \<and> (contains ''is too large'' (lower m) \<and> \<not> contains ''is private'' (lower m)
      \<longrightarrow> user_friendly_message g m = too_large_message)"
proof (intro conjI impI)
  show "user_friendly_message g m = classify_message_spec g m"
    by (rule chain_is_first_match)
next
  assume a: "patterns = ps @ (k, t) # qs \<and> contains k (lower m)
    \<and> list_all (\<lambda>kt. \<not> contains (fst kt) (lower m)) ps"
  then have "find (\<lambda>kt. contains (fst kt) (lower m)) (ps @ (k, t) # qs) = Some (k, t)"
    by (intro find_first_match) (auto simp: list_all_iff)
  with a show "user_friendly_message g m = t"
    by (simp add: chain_is_first_match classify_message_spec_def)
next
  assume "list_all (\<lambda>kt. \<not> contains (fst kt) (lower m)) patterns"
  then have "find (\<lambda>kt. contains (fst kt) (lower m)) patterns = None"
    by (intro find_no_match) (auto simp: list_all_iff)
  then show "user_friendly_message g m = g"
    by (simp add: chain_is_first_match classify_message_spec_def)
next
  assume "contains ''is private'' (lower m)"
  then show "user_friendly_message g m = private_account_message"
    by (simp add: user_friendly_message_def)
next
  assume "contains ''is too large'' (lower m) \<and> \<not> contains ''is private'' (lower m)"
  then show "user_friendly_message g m = too_large_message"
    by (simp add: user_friendly_message_def)
qed

theorem classifier_first_match_wins_witness:
  "(patterns = [(''is private'', private_account_message)] @ (''is too large'', too_large_message) #
      [(''does not contain a video'', no_video_message),
       (''could not load video information'', no_information_message),
       (''no suitable video streams'', no_streams_message)]
    \<and> contains ''is too large'' (lower ''The video IS TOO LARGE to send'')
    \<and> list_all (\<lambda>kt. \<not> contains (fst kt) (lower ''The video IS TOO LARGE to send''))
          [(''is private'', private_account_message)]
    \<and> \<not> contains ''is private'' (lower ''The video IS TOO LARGE to send'')
    \<and> user_friendly_message ''oops'' ''The video IS TOO LARGE to send'' = too_large_message)
   \<and> (contains ''is private'' (lower ''This account Is Private'')
    \<and> user_friendly_message ''oops'' ''This account Is Private'' = private_account_message)
   \<and> (list_all (\<lambda>kt. \<not> contains (fst kt) (lower ''Network down'')) patterns
    \<and> user_friendly_message ''oops'' ''Network down'' = ''oops'')"
proof -
  let ?ps = "[(''is private'', private_account_message)]"
  let ?qs = "[(''does not contain a video'', no_video_message),
       (''could not load video information'', no_information_message),
       (''no suitable video streams'', no_streams_message)]"
  let ?m = "''The video IS TOO LARGE to send''"
  have a: "patterns = ?ps @ (''is too large'', too_large_message) # ?qs
    \<and> contains ''is too large'' (lower ?m)
    \<and> list_all (\<lambda>kt. \<not> contains (fst kt) (lower ?m)) ?ps"
    by (simp add: patterns_def lower_def lower_char_def)
  have b: "contains ''is too large'' (lower ?m) \<and> \<not> contains ''is private'' (lower ?m)"
    by (simp add: lower_def lower_char_def)
  have c: "contains ''is private'' (lower ''This account Is Private'')"
    by (simp add: lower_def lower_char_def)
  have d: "list_all (\<lambda>kt. \<not> contains (fst kt) (lower ''Network down'')) patterns"
    by (simp add: patterns_def lower_def lower_char_def)
  note t1 = classifier_first_match_wins [of "''oops''" ?m ?ps "''is too large''" too_large_message ?qs]
  note t2 = classifier_first_match_wins [of "''oops''" "''This account Is Private''" ?ps "''is too large''" too_large_message ?qs]
  note t3 = classifier_first_match_wins [of "''oops''" "''Network down''" ?ps "''is too large''" too_large_message ?qs]
  have r1: "user_friendly_message ''oops'' ?m = too_large_message"
    using t1 [THEN conjunct2, THEN conjunct1, THEN mp, OF a] .
  have r1': "user_friendly_message ''oops'' ?m = too_large_message"
    using t1 [THEN conjunct2, THEN conjunct2, THEN conjunct2, THEN conjunct2, THEN mp, OF b] .
  have r2: "user_friendly_message ''oops'' ''This account Is Private'' = private_account_message"
    using t2 [THEN conjunct2, THEN conjunct2, THEN conjunct2, THEN conjunct1, THEN mp, OF c] .
  have r3: "user_friendly_message ''oops'' ''Network down'' = ''oops''"
    using t3 [THEN conjunct2, THEN conjunct2, THEN conjunct1, THEN mp, OF d] .
  from a b c d r1 r2 r3 show ?thesis by blast
qed

section \<open>Unrecognised text\<close>

text \<open>
  C8: when the classifier returns \<^verbatim>\<open>None\<close> for the stripped text, the handler logs twice,
  replies with \<^verbatim>\<open>INVALID_URL_MESSAGE\<close> and is done: the reply is the only call to a
  collaborator, so no downloader is invoked, and the table of outcome records and the
  files are as before. The handler returns unless the reply itself raises.
\<close>

theorem unrecognised_text_is_rejected:
  assumes "get_url_type e (strip text) = None"
  shows "fst (handle_url e text s)
           = map_option OtherError (reply_text_fault e (INVALID_URL_MESSAGE e))
       \<and> trace (snd (handle_url e text s))
           = trace s @ [Log INFO (Received_URL (strip text)),
                        Log INFO (Invalid_URL_rejected (strip text)),
                        Reply_text (INVALID_URL_MESSAGE e)]
       \<and> db (snd (handle_url e text s)) = db s
       \<and> files (snd (handle_url e text s)) = files s"
  using rejected_run [of e "text" s] assms by simp

theorem unrecognised_text_is_rejected_witness:
  "get_url_type good_env (strip ''hello there'') = None
   \<and> fst (handle_url good_env ''hello there'' init) = None
   \<and> trace (snd (handle_url good_env ''hello there'' init))
       = [Log INFO (Received_URL ''hello there''), Log INFO (Invalid_URL_rejected ''hello there''),
          Reply_text ''Please send a valid link.'']
   \<and> db (snd (handle_url good_env ''hello there'' init)) = []"
proof -
  have s: "strip ''hello there'' = ''hello there''"
    by (rule strip_unchanged) (simp_all add: whitespace_def suffix_to_prefix)
  have h: "get_url_type good_env (strip ''hello there'') = None"
    by (simp add: s good_env_def tiktok_link_def vimeo_link_def)
  from unrecognised_text_is_rejected [OF h, of init] h show ?thesis
    by (simp add: s good_env_def init_def)
qed

section \<open>A tag nothing is dispatched on\<close>

text \<open>
  C10, as stated, fails in two ways. With a null user reference (here: the profile lookup
  returns nothing) every recording site is skipped, so the run of an undispatched tag leaves
  no outcome record. And the reply of the \<^verbatim>\<open>except DownloadError\<close> clause is itself a
  call that can raise; when it does, the exception leaves the handler.
\<close>

theorem undispatched_tag_counterexample:
  "get_url_type (good_env\<lparr>get_or_create_user := Inr None\<rparr>) (strip vimeo_link) = Some ''vimeo''
   \<and> ''vimeo'' \<notin> set [''youtube'', ''instagram'', ''tiktok'', ''twitter'', ''facebook'']
   \<and> db (snd (handle_url (good_env\<lparr>get_or_create_user := Inr None\<rparr>) vimeo_link init)) = []
   \<and> fst (handle_url (good_env\<lparr>edit_text_fault := \<lambda>m. Some ''Message to edit not found''\<rparr>)
             vimeo_link init)
       = Some (OtherError ''Message to edit not found'')"
proof -
  let ?a = "good_env\<lparr>get_or_create_user := Inr None\<rparr>"
  let ?b = "good_env\<lparr>edit_text_fault := \<lambda>m. Some ''Message to edit not found''\<rparr>"
  have p: "platform_of ''vimeo'' = None"
    by (simp add: platform_of_def)
  have a: "get_url_type ?a (strip vimeo_link) = Some ''vimeo''"
    "reply_text_fault ?a (PROCESSING_MESSAGE ?a) = None" "resolved ?a = None"
    using good_env_vimeo by (simp_all add: resolved_def) (simp add: good_env_def)
  have b: "get_url_type ?b (strip vimeo_link) = Some ''vimeo''"
    "reply_text_fault ?b (PROCESSING_MESSAGE ?b) = None"
    using good_env_vimeo by simp_all (simp add: good_env_def)
  have "db (snd (handle_url ?a vimeo_link init)) = []"
    using unknown_tag_run(3) [OF a(1) _ p a(2), of init]
    by (simp add: a(3) recorded_def init_def)
  moreover have "fst (handle_url ?b vimeo_link init) = Some (OtherError ''Message to edit not found'')"
    using unknown_tag_run(1) [OF b(1) _ p b(2), of init] by simp
  ultimately show ?thesis
    using a(1) by simp
qed

text \<open>
  C10, amended: if the classifier returns a non-empty tag other than the five dispatched
  ones and the processing reply has been sent, then the dispatch returns no path, no
  downloader is invoked, the \<^verbatim>\<open>except DownloadError\<close> clause runs with the text
  \<open>Couldn't download video from <tag>: <url>\<close>, the last call of the run is the edit of
  the processing message to the friendly message followed by that text, and the handler
  returns unless that edit raises. One failed row with that text is appended when a user
  profile was resolved and the recorder does not fail, and none otherwise.
\<close>

theorem undispatched_tag_is_a_download_failure:
  assumes "get_url_type e (strip text) = Some t" and "t \<noteq> []"
      and "t \<notin> set [''youtube'', ''instagram'', ''tiktok'', ''twitter'', ''facebook'']"
      and "reply_text_fault e (PROCESSING_MESSAGE e) = None"
  shows "fst (dispatch e t (strip text) s0) = Inr None
       \<and> filter is_call_downloader (trace (snd (handle_url e text s)))
           = filter is_call_downloader (trace s)
       \<and> Log ERROR (Download_error (''Couldn't download video from '' @ t @ '': '' @ strip text))
           \<in> set (trace (snd (handle_url e text s)))
       \<and> last (trace (snd (handle_url e text s)))
           = Edit_text (detailed_message (ERROR_MESSAGE e)
               (''Couldn't download video from '' @ t @ '': '' @ strip text))
       \<and> fst (handle_url e text s)
           = map_option OtherError
               (edit_text_fault e (detailed_message (ERROR_MESSAGE e)
                  (''Couldn't download video from '' @ t @ '': '' @ strip text)))
       \<and> db (snd (handle_url e text s))
           = db s @ recorded e (resolved e) (strip text) t None ''failed''
                      (Some (''Couldn't download video from '' @ t @ '': '' @ strip text))"
proof -
  from assms(3) have p: "platform_of t = None"
    by (simp add: platform_of_None)
  note run = unknown_tag_run [OF assms(1,2) p assms(4), of s]
  have "fst (dispatch e t (strip text) s0) = Inr None"
    by (simp add: dispatch_platform p)
  moreover have "filter is_call_downloader (trace (snd (handle_url e text s)))
                   = filter is_call_downloader (trace s)"
    by (simp add: run(2))
  moreover have "Log ERROR (Download_error (''Couldn't download video from '' @ t @ '': '' @ strip text))
                   \<in> set (trace (snd (handle_url e text s)))"
    by (simp add: run(2))
  moreover have "last (trace (snd (handle_url e text s)))
                   = Edit_text (detailed_message (ERROR_MESSAGE e)
                       (''Couldn't download video from '' @ t @ '': '' @ strip text))"
    by (simp add: run(2))
  ultimately show ?thesis
    using run(1) run(3) by blast
qed

theorem undispatched_tag_is_a_download_failure_witness:
  "get_url_type good_env (strip vimeo_link) = Some ''vimeo''
   \<and> ''vimeo'' \<noteq> []
   \<and> ''vimeo'' \<notin> set [''youtube'', ''instagram'', ''tiktok'', ''twitter'', ''facebook'']
   \<and> reply_text_fault good_env (PROCESSING_MESSAGE good_env) = None
   \<and> fst (dispatch good_env ''vimeo'' (strip vimeo_link) init) = Inr None
   \<and> filter is_call_downloader (trace (snd (handle_url good_env vimeo_link init))) = []
   \<and> fst (handle_url good_env vimeo_link init) = None
   \<and> db (snd (handle_url good_env vimeo_link init))
       = [row alice ''https://vimeo.com/1'' ''vimeo'' None ''failed''
            (Some ''Couldn't download video from vimeo: https://vimeo.com/1'')]"
proof -
  have h: "''vimeo'' \<noteq> []"
    "''vimeo'' \<notin> set [''youtube'', ''instagram'', ''tiktok'', ''twitter'', ''facebook'']"
    "reply_text_fault good_env (PROCESSING_MESSAGE good_env) = None"
    by (simp_all add: good_env_def)
  have r: "resolved good_env = Some alice" "recorder_fault good_env = (\<lambda>r. None)"
    "edit_text_fault good_env = (\<lambda>m. None)"
    by (simp_all add: resolved_def good_env_def)
  from undispatched_tag_is_a_download_failure [OF good_env_vimeo h, of init init]
  show ?thesis
    using good_env_vimeo h
    by (simp add: r recorded_def strip_vimeo_link init_def) (simp add: vimeo_link_def)
qed

section \<open>A failed profile lookup\<close>

text \<open>
  C9: when the profile lookup raises or returns nothing, the run is the rest of the
  handler with a null user reference; the lookup leaves one error line in the log and
  nothing else. If the other collaborators work, the downloader is called, the size is
  checked, the video is sent and the handler returns; no outcome record is written.
\<close>

theorem failed_profile_lookup_degrades_to_null_user:
  assumes "get_url_type e (strip text) = Some t" and "t \<noteq> []"
      and "get_or_create_user e = Inl err \<or> get_or_create_user e = Inr None"
  shows "(\<exists>s2 m. handle_url e text s = pipeline e (strip text) t None s2
            \<and> trace s2 = trace s @ [Log INFO (Received_URL (strip text)), Get_or_create_user,
                                     Log ERROR m]
            \<and> db s2 = db s \<and> files s2 = files s)
       \<and> (reply_text_fault e (PROCESSING_MESSAGE e) = None
            \<and> platform_of t = Some pl
            \<and> downloader e pl (strip text) (files s) = (Inr (Some p), fs)
            \<and> fs p = Some n \<and> n \<le> 50 * 1024 * 1024
            \<and> open_fault e p = None \<and> get_donation_keyboard e (DONATION_URL e) = Inr k
            \<and> reply_video_fault e p = None \<and> delete_fault e = None
          \<longrightarrow> fst (handle_url e text s) = None
            \<and> Call_downloader pl (strip text) \<in> set (trace (snd (handle_url e text s)))
            \<and> Get_size p n \<in> set (trace (snd (handle_url e text s)))
            \<and> Reply_video p (DOWNLOAD_SUCCESS_MESSAGE e) k
                 \<in> set (trace (snd (handle_url e text s)))
            \<and> db (snd (handle_url e text s)) = db s)"
proof (intro conjI impI)
  let ?s2 = "snd (resolve_user e (emit (Log INFO (Received_URL (strip text))) s))"
  from assms(3) have r: "resolved e = None"
    by (auto simp add: resolved_def)
  from assms(3) obtain m where "lookup_events e = [Get_or_create_user, Log ERROR m]"
    by (auto simp add: lookup_events_def)
  then have "trace ?s2 = trace s @ [Log INFO (Received_URL (strip text)), Get_or_create_user,
                                    Log ERROR m]"
    by (simp add: resolve_user_trace)
  moreover have "handle_url e text s = pipeline e (strip text) t None ?s2"
    using handle_url_classified [OF assms(1,2), of s] by (simp add: r)
  moreover have "db ?s2 = db s" "files ?s2 = files s"
    by simp_all
  ultimately show "\<exists>s2 m. handle_url e text s = pipeline e (strip text) t None s2
            \<and> trace s2 = trace s @ [Log INFO (Received_URL (strip text)), Get_or_create_user,
                                     Log ERROR m]
            \<and> db s2 = db s \<and> files s2 = files s"
    by blast
next
  assume a: "reply_text_fault e (PROCESSING_MESSAGE e) = None
            \<and> platform_of t = Some pl
            \<and> downloader e pl (strip text) (files s) = (Inr (Some p), fs)
            \<and> fs p = Some n \<and> n \<le> 50 * 1024 * 1024
            \<and> open_fault e p = None \<and> get_donation_keyboard e (DONATION_URL e) = Inr k
            \<and> reply_video_fault e p = None \<and> delete_fault e = None"
  from assms(3) have r: "resolved e = None"
    by (auto simp add: resolved_def)
  from a have sent: "send_fault e p = None"
    "send_events e p = [Open_file p, Get_donation_keyboard (DONATION_URL e),
                        Reply_video p (DOWNLOAD_SUCCESS_MESSAGE e) k]"
    by (simp_all add: send_events_sent)
  from a have pre: "reply_text_fault e (PROCESSING_MESSAGE e) = None" "platform_of t = Some pl"
    "downloader e pl (strip text) (files s) = (Inr (Some p), fs)" "fs p = Some n"
    "n \<le> 50 * 1024 * 1024" "delete_fault e = None"
    by simp_all
  note run = accepted_run [OF assms(1,2) pre(1-5)]
  show "fst (handle_url e text s) = None"
    by (simp add: run(1) sent pre(6))
  show "Call_downloader pl (strip text) \<in> set (trace (snd (handle_url e text s)))"
    by (simp add: run(2))
  show "Get_size p n \<in> set (trace (snd (handle_url e text s)))"
    by (simp add: run(2))
  show "Reply_video p (DOWNLOAD_SUCCESS_MESSAGE e) k \<in> set (trace (snd (handle_url e text s)))"
    by (simp add: run(2) sent)
  show "db (snd (handle_url e text s)) = db s"
    by (simp add: run(3) sent pre(6) r recorded_def)
qed

theorem failed_profile_lookup_degrades_to_null_user_witness:
  "get_url_type (good_env\<lparr>get_or_create_user := Inl ''connection refused''\<rparr>) (strip tiktok_link)
     = Some ''tiktok''
   \<and> ''tiktok'' \<noteq> []
   \<and> get_or_create_user (good_env\<lparr>get_or_create_user := Inl ''connection refused''\<rparr>)
       = Inl ''connection refused''
   \<and> reply_text_fault (good_env\<lparr>get_or_create_user := Inl ''connection refused''\<rparr>)
        ''Processing...'' = None
   \<and> platform_of ''tiktok'' = Some Tiktok
   \<and> downloader (good_env\<lparr>get_or_create_user := Inl ''connection refused''\<rparr>) Tiktok
        (strip tiktok_link) (files init)
       = (Inr (Some video_file), (files init)(video_file \<mapsto> 3 * 1024 * 1024))
   \<and> ((files init)(video_file \<mapsto> 3 * 1024 * 1024)) video_file = Some (3 * 1024 * 1024)
   \<and> (3 * 1024 * 1024 :: nat) \<le> 50 * 1024 * 1024
   \<and> open_fault (good_env\<lparr>get_or_create_user := Inl ''connection refused''\<rparr>) video_file = None
   \<and> get_donation_keyboard (good_env\<lparr>get_or_create_user := Inl ''connection refused''\<rparr>)
        ''https://example.org/donate'' = Inr (Some (Keyboard ''https://example.org/donate''))
   \<and> reply_video_fault (good_env\<lparr>get_or_create_user := Inl ''connection refused''\<rparr>)
        video_file = None
   \<and> delete_fault (good_env\<lparr>get_or_create_user := Inl ''connection refused''\<rparr>) = None
   \<and> fst (handle_url (good_env\<lparr>get_or_create_user := Inl ''connection refused''\<rparr>)
             tiktok_link init) = None
   \<and> Reply_video video_file ''Here is your video.'' (Some (Keyboard ''https://example.org/donate''))
       \<in> set (trace (snd (handle_url (good_env\<lparr>get_or_create_user := Inl ''connection refused''\<rparr>)
                              tiktok_link init)))
   \<and> db (snd (handle_url (good_env\<lparr>get_or_create_user := Inl ''connection refused''\<rparr>)
               tiktok_link init)) = []"
proof -
  let ?e = "good_env\<lparr>get_or_create_user := Inl ''connection refused''\<rparr>"
  let ?fs = "(files init)(video_file \<mapsto> 3 * 1024 * 1024)"
  have c: "get_url_type ?e (strip tiktok_link) = Some ''tiktok''" "''tiktok'' \<noteq> []"
    "get_or_create_user ?e = Inl ''connection refused'' \<or> get_or_create_user ?e = Inr None"
    using good_env_tiktok by simp_all
  have d: "downloader ?e Tiktok (strip tiktok_link) (files init) = (Inr (Some video_file), ?fs)"
    by (simp add: downloader_def good_env_def writes_def)
  have o: "reply_text_fault ?e (PROCESSING_MESSAGE ?e) = None" "PROCESSING_MESSAGE ?e = ''Processing...''"
    "open_fault ?e video_file = None"
    "get_donation_keyboard ?e (DONATION_URL ?e) = Inr (Some (Keyboard ''https://example.org/donate''))"
    "reply_video_fault ?e video_file = None" "delete_fault ?e = None"
    "DOWNLOAD_SUCCESS_MESSAGE ?e = ''Here is your video.''"
    "DONATION_URL ?e = ''https://example.org/donate''"
    by (simp_all add: good_env_def)
  have f: "?fs video_file = Some (3 * 1024 * 1024)" "(3 * 1024 * 1024 :: nat) \<le> 50 * 1024 * 1024"
    by simp_all
  note t = failed_profile_lookup_degrades_to_null_user [OF c,
      where s = init and pl = Tiktok and p = video_file and fs = ?fs and n = "3 * 1024 * 1024"
        and k = "Some (Keyboard ''https://example.org/donate'')",
      THEN conjunct2, THEN mp]
  have "fst (handle_url ?e tiktok_link init) = None
    \<and> Call_downloader Tiktok (strip tiktok_link) \<in> set (trace (snd (handle_url ?e tiktok_link init)))
    \<and> Get_size video_file (3 * 1024 * 1024) \<in> set (trace (snd (handle_url ?e tiktok_link init)))
    \<and> Reply_video video_file (DOWNLOAD_SUCCESS_MESSAGE ?e) (Some (Keyboard ''https://example.org/donate''))
         \<in> set (trace (snd (handle_url ?e tiktok_link init)))
    \<and> db (snd (handle_url ?e tiktok_link init)) = db init"
    using o d f platform_of_tiktok by (intro t) simp
  then show ?thesis
    using c(1) d f o platform_of_tiktok by (simp add: init_def)
qed

section \<open>One outcome record per run\<close>

text \<open>
  C1, amended: for a run whose URL is classified, no outcome record is appended when the
  user reference is null. When the profile was resolved, the recorder does not fail and the
  processing reply was sent, exactly one record is appended on each of these paths, and it
  is the row of that outcome. A run that fails to download (the tag is not dispatched on,
  the downloader raised a \<^verbatim>\<open>DownloadError\<close> or returned nothing, or the file it named is
  missing) sends no video, reaches the \<^verbatim>\<open>except DownloadError\<close> clause and appends one failed
  row, without a size, whose error message is the text of the failure. A run in which the
  downloader raised anything else sends no video, reaches the \<^verbatim>\<open>except Exception\<close> clause and
  appends one failed row whose error message is \<open>Unexpected error: \<close> and the text. A run
  that sends the video and deletes the processing message returns and appends one success
  row with the measured size in megabytes and no error message. Runs that end at the size
  check, in a failed send or in a failed deletion of the processing message are not covered.
\<close>

theorem one_outcome_record_per_plain_run:
  assumes "get_url_type e (strip text) = Some t" and "t \<noteq> []"
  shows "(resolved e = None \<longrightarrow> db (snd (handle_url e text s)) = db s)
       \<and> (recording_ready e u \<and> platform_of t = None
          \<longrightarrow> filter is_reply_video (trace (snd (handle_url e text s)))
                = filter is_reply_video (trace s)
            \<and> Log ERROR (Download_error
                 (''Couldn't download video from '' @ t @ '': '' @ strip text))
                 \<in> set (trace (snd (handle_url e text s)))
            \<and> db (snd (handle_url e text s))
                = db s @ [row u (strip text) t None ''failed''
                            (Some (''Couldn't download video from '' @ t @ '': '' @ strip text))])
       \<and> (recording_ready e u \<and> platform_of t = Some pl
            \<and> downloader e pl (strip text) (files s) = (Inl (DownloadError m), fs)
          \<longrightarrow> filter is_reply_video (trace (snd (handle_url e text s)))
                = filter is_reply_video (trace s)
            \<and> Log ERROR (Download_error m) \<in> set (trace (snd (handle_url e text s)))
            \<and> db (snd (handle_url e text s))
                = db s @ [row u (strip text) t None ''failed'' (Some m)])
       \<and> (recording_ready e u \<and> platform_of t = Some pl
            \<and> downloader e pl (strip text) (files s) = (Inl (OtherError m), fs)
          \<longrightarrow> filter is_reply_video (trace (snd (handle_url e text s)))
                = filter is_reply_video (trace s)
            \<and> Log ERROR (Unexpected_error m) \<in> set (trace (snd (handle_url e text s)))
            \<and> db (snd (handle_url e text s))
                = db s @ [row u (strip text) t None ''failed''
                            (Some (''Unexpected error: '' @ m))])
       \<and> (recording_ready e u \<and> platform_of t = Some pl
            \<and> downloader e pl (strip text) (files s) = (Inr None, fs)
          \<longrightarrow> filter is_reply_video (trace (snd (handle_url e text s)))
                = filter is_reply_video (trace s)
            \<and> Log ERROR (Download_error
                 (''Couldn't download video from '' @ t @ '': '' @ strip text))
                 \<in> set (trace (snd (handle_url e text s)))
            \<and> db (snd (handle_url e text s))
                = db s @ [row u (strip text) t None ''failed''
                            (Some (''Couldn't download video from '' @ t @ '': '' @ strip text))])
       \<and> (recording_ready e u \<and> platform_of t = Some pl
            \<and> downloader e pl (strip text) (files s) = (Inr (Some p), fs) \<and> fs p = None
          \<longrightarrow> filter is_reply_video (trace (snd (handle_url e text s)))
                = filter is_reply_video (trace s)
            \<and> Log ERROR (Download_error ''The downloaded file could not be found.'')
                 \<in> set (trace (snd (handle_url e text s)))
            \<and> db (snd (handle_url e text s))
                = db s @ [row u (strip text) t None ''failed''
                            (Some ''The downloaded file could not be found.'')])
       \<and> (recording_ready e u \<and> platform_of t = Some pl
            \<and> downloader e pl (strip text) (files s) = (Inr (Some p), fs)
            \<and> fs p = Some n \<and> n \<le> 50 * 1024 * 1024
            \<and> open_fault e p = None \<and> get_donation_keyboard e (DONATION_URL e) = Inr k
            \<and> reply_video_fault e p = None \<and> delete_fault e = None
          \<longrightarrow> fst (handle_url e text s) = None
            \<and> Reply_video p (DOWNLOAD_SUCCESS_MESSAGE e) k
                 \<in> set (trace (snd (handle_url e text s)))
            \<and> db (snd (handle_url e text s))
                = db s @ [row u (strip text) t (Some (real n / (1024 * 1024))) ''success'' None])"
proof (intro conjI impI)
  assume "resolved e = None"
  then show "db (snd (handle_url e text s)) = db s"
    by (rule null_user_records_nothing)
next
  assume a: "recording_ready e u \<and> platform_of t = None"
  then have r: "recording_ready e u" and p: "platform_of t = None"
    by simp_all
  note d = recording_readyD [OF r]
  note run = unknown_tag_run [OF assms p d(2)]
  show "filter is_reply_video (trace (snd (handle_url e text s)))
          = filter is_reply_video (trace s)"
    by (simp add: run(2))
  show "Log ERROR (Download_error (''Couldn't download video from '' @ t @ '': '' @ strip text))
          \<in> set (trace (snd (handle_url e text s)))"
    by (simp add: run(2))
  show "db (snd (handle_url e text s))
          = db s @ [row u (strip text) t None ''failed''
                      (Some (''Couldn't download video from '' @ t @ '': '' @ strip text))]"
    by (simp add: run(3) d)
next
  assume a: "recording_ready e u \<and> platform_of t = Some pl
            \<and> downloader e pl (strip text) (files s) = (Inl (DownloadError m), fs)"
  then have r: "recording_ready e u" and p: "platform_of t = Some pl"
    and dl: "downloader e pl (strip text) (files s) = (Inl (DownloadError m), fs)"
    by simp_all
  note d = recording_readyD [OF r]
  note run = raised_download_error_run [OF assms d(2) p dl]
  show "filter is_reply_video (trace (snd (handle_url e text s)))
          = filter is_reply_video (trace s)"
    by (simp add: run(2))
  show "Log ERROR (Download_error m) \<in> set (trace (snd (handle_url e text s)))"
    by (simp add: run(2) mark_in_download_error_events)
  show "db (snd (handle_url e text s)) = db s @ [row u (strip text) t None ''failed'' (Some m)]"
    by (simp add: run(3) d)
next
  assume a: "recording_ready e u \<and> platform_of t = Some pl
            \<and> downloader e pl (strip text) (files s) = (Inl (OtherError m), fs)"
  then have r: "recording_ready e u" and p: "platform_of t = Some pl"
    and dl: "downloader e pl (strip text) (files s) = (Inl (OtherError m), fs)"
    by simp_all
  note d = recording_readyD [OF r]
  note run = raised_other_run [OF assms d(2) p dl]
  show "filter is_reply_video (trace (snd (handle_url e text s)))
          = filter is_reply_video (trace s)"
    by (simp add: run(2))
  show "Log ERROR (Unexpected_error m) \<in> set (trace (snd (handle_url e text s)))"
    by (simp add: run(2) mark_in_download_error_events)
  show "db (snd (handle_url e text s))
          = db s @ [row u (strip text) t None ''failed'' (Some (''Unexpected error: '' @ m))]"
    by (simp add: run(3) d)
next
  assume a: "recording_ready e u \<and> platform_of t = Some pl
            \<and> downloader e pl (strip text) (files s) = (Inr None, fs)"
  then have r: "recording_ready e u" and p: "platform_of t = Some pl"
    and dl: "downloader e pl (strip text) (files s) = (Inr None, fs)"
    by simp_all
  note d = recording_readyD [OF r]
  note run = empty_run [OF assms d(2) p dl]
  show "filter is_reply_video (trace (snd (handle_url e text s)))
          = filter is_reply_video (trace s)"
    by (simp add: run(2))
  show "Log ERROR (Download_error (''Couldn't download video from '' @ t @ '': '' @ strip text))
          \<in> set (trace (snd (handle_url e text s)))"
    by (simp add: run(2) mark_in_download_error_events)
  show "db (snd (handle_url e text s))
          = db s @ [row u (strip text) t None ''failed''
                      (Some (''Couldn't download video from '' @ t @ '': '' @ strip text))]"
    by (simp add: run(3) d)
next
  assume a: "recording_ready e u \<and> platform_of t = Some pl
            \<and> downloader e pl (strip text) (files s) = (Inr (Some p), fs) \<and> fs p = None"
  then have r: "recording_ready e u" and p: "platform_of t = Some pl"
    and dl: "downloader e pl (strip text) (files s) = (Inr (Some p), fs)" and f: "fs p = None"
    by simp_all
  note d = recording_readyD [OF r]
  note run = missing_run [OF assms d(2) p dl f]
  show "filter is_reply_video (trace (snd (handle_url e text s)))
          = filter is_reply_video (trace s)"
    by (simp add: run(2))
  show "Log ERROR (Download_error ''The downloaded file could not be found.'')
          \<in> set (trace (snd (handle_url e text s)))"
    by (simp add: run(2) mark_in_download_error_events)
  show "db (snd (handle_url e text s))
          = db s @ [row u (strip text) t None ''failed''
                      (Some ''The downloaded file could not be found.'')]"
    by (simp add: run(3) d)
next
  assume a: "recording_ready e u \<and> platform_of t = Some pl
            \<and> downloader e pl (strip text) (files s) = (Inr (Some p), fs)
            \<and> fs p = Some n \<and> n \<le> 50 * 1024 * 1024
            \<and> open_fault e p = None \<and> get_donation_keyboard e (DONATION_URL e) = Inr k
            \<and> reply_video_fault e p = None \<and> delete_fault e = None"
  then have r: "recording_ready e u" and p: "platform_of t = Some pl"
    and dl: "downloader e pl (strip text) (files s) = (Inr (Some p), fs)"
    and f: "fs p = Some n" "n \<le> 50 * 1024 * 1024"
    and o: "open_fault e p = None" "get_donation_keyboard e (DONATION_URL e) = Inr k"
      "reply_video_fault e p = None"
    and del: "delete_fault e = None"
    by simp_all
  note d = recording_readyD [OF r]
  note sent = send_events_sent [OF o]
  note run = accepted_run [OF assms d(2) p dl f]
  show "fst (handle_url e text s) = None"
    by (simp add: run(1) sent del)
  show "Reply_video p (DOWNLOAD_SUCCESS_MESSAGE e) k \<in> set (trace (snd (handle_url e text s)))"
    by (simp add: run(2) sent)
  show "db (snd (handle_url e text s))
          = db s @ [row u (strip text) t (Some (real n / (1024 * 1024))) ''success'' None]"
    by (simp add: run(3) sent del d)
qed

theorem one_outcome_record_per_plain_run_witness:
  "(get_url_type no_profile_env (strip tiktok_link) = Some ''tiktok'' \<and> ''tiktok'' \<noteq> []
     \<and> resolved no_profile_env = None
     \<and> db (snd (handle_url no_profile_env tiktok_link init)) = [])
   \<and> (get_url_type good_env (strip vimeo_link) = Some ''vimeo'' \<and> ''vimeo'' \<noteq> []
     \<and> recording_ready good_env alice \<and> platform_of ''vimeo'' = None
     \<and> db (snd (handle_url good_env vimeo_link init))
         = [row alice vimeo_link ''vimeo'' None ''failed''
              (Some ''Couldn't download video from vimeo: https://vimeo.com/1'')])
   \<and> (get_url_type private_env (strip tiktok_link) = Some ''tiktok''
     \<and> recording_ready private_env alice \<and> platform_of ''tiktok'' = Some Tiktok
     \<and> downloader private_env Tiktok (strip tiktok_link) (files init)
         = (Inl (DownloadError ''This account is private''), files init)
     \<and> db (snd (handle_url private_env tiktok_link init))
         = [row alice tiktok_link ''tiktok'' None ''failed'' (Some ''This account is private'')])
   \<and> (get_url_type broken_env (strip tiktok_link) = Some ''tiktok''
     \<and> recording_ready broken_env alice
     \<and> downloader broken_env Tiktok (strip tiktok_link) (files init)
         = (Inl (OtherError ''boom''), files init)
     \<and> db (snd (handle_url broken_env tiktok_link init))
         = [row alice tiktok_link ''tiktok'' None ''failed'' (Some ''Unexpected error: boom'')])
   \<and> (get_url_type empty_env (strip tiktok_link) = Some ''tiktok''
     \<and> recording_ready empty_env alice
     \<and> downloader empty_env Tiktok (strip tiktok_link) (files init) = (Inr None, files init)
     \<and> db (snd (handle_url empty_env tiktok_link init))
         = [row alice tiktok_link ''tiktok'' None ''failed''
              (Some ''Couldn't download video from tiktok: https://www.tiktok.com/@user/video/123'')])
   \<and> (get_url_type lost_env (strip tiktok_link) = Some ''tiktok''
     \<and> recording_ready lost_env alice
     \<and> downloader lost_env Tiktok (strip tiktok_link) (files init)
         = (Inr (Some video_file), files init)
     \<and> files init video_file = None
     \<and> db (snd (handle_url lost_env tiktok_link init))
         = [row alice tiktok_link ''tiktok'' None ''failed''
              (Some ''The downloaded file could not be found.'')])
   \<and> (get_url_type good_env (strip tiktok_link) = Some ''tiktok''
     \<and> downloader good_env Tiktok (strip tiktok_link) (files init)
         = (Inr (Some video_file), (files init)(video_file \<mapsto> 3 * 1024 * 1024))
     \<and> ((files init)(video_file \<mapsto> 3 * 1024 * 1024)) video_file = Some (3 * 1024 * 1024)
     \<and> (3 * 1024 * 1024 :: nat) \<le> 50 * 1024 * 1024
     \<and> open_fault good_env video_file = None
     \<and> get_donation_keyboard good_env (DONATION_URL good_env)
         = Inr (Some (Keyboard ''https://example.org/donate''))
     \<and> reply_video_fault good_env video_file = None \<and> delete_fault good_env = None
     \<and> fst (handle_url good_env tiktok_link init) = None
     \<and> Reply_video video_file ''Here is your video.'' (Some (Keyboard ''https://example.org/donate''))
         \<in> set (trace (snd (handle_url good_env tiktok_link init)))
     \<and> db (snd (handle_url good_env tiktok_link init))
         = [row alice tiktok_link ''tiktok'' (Some 3) ''success'' None])"
proof -
  have v: "''vimeo'' \<noteq> []" "platform_of ''vimeo'' = None"
    by (simp_all add: platform_of_def)
  have g: "open_fault good_env video_file = None"
    "get_donation_keyboard good_env (DONATION_URL good_env)
       = Inr (Some (Keyboard ''https://example.org/donate''))"
    "reply_video_fault good_env video_file = None"
    "DOWNLOAD_SUCCESS_MESSAGE good_env = ''Here is your video.''"
    by (simp_all add: good_env_def)
  \<comment> \<open>null user\<close>
  have h1: "resolved no_profile_env = None"
    by (rule no_profile_env_oracles(5))
  note c1 = one_outcome_record_per_plain_run [OF no_profile_env_oracles(1) tiktok_tag,
      where s = init, THEN conjunct1, THEN mp, OF h1]
  \<comment> \<open>a tag that is not dispatched on\<close>
  have h2: "recording_ready good_env alice \<and> platform_of ''vimeo'' = None"
    by (simp add: recording_ready_envs v)
  note c2 = one_outcome_record_per_plain_run [OF good_env_vimeo v(1),
      where s = init and u = alice, THEN conjunct2, THEN conjunct1, THEN mp, OF h2]
  \<comment> \<open>the downloader raises a download error\<close>
  have h3: "recording_ready private_env alice \<and> platform_of ''tiktok'' = Some Tiktok
     \<and> downloader private_env Tiktok (strip tiktok_link) (files init)
         = (Inl (DownloadError ''This account is private''), files init)"
    by (simp add: private_env_oracles platform_of_tiktok)
  note c3 = one_outcome_record_per_plain_run [OF private_env_oracles(1) tiktok_tag,
      where s = init and u = alice, THEN conjunct2, THEN conjunct2, THEN conjunct1,
      THEN mp, OF h3]
  \<comment> \<open>the downloader raises something else\<close>
  have h4: "recording_ready broken_env alice \<and> platform_of ''tiktok'' = Some Tiktok
     \<and> downloader broken_env Tiktok (strip tiktok_link) (files init)
         = (Inl (OtherError ''boom''), files init)"
    by (simp add: recording_ready_envs broken_env_oracles platform_of_tiktok)
  note c4 = one_outcome_record_per_plain_run [OF broken_env_oracles(1) tiktok_tag,
      where s = init and u = alice, THEN conjunct2, THEN conjunct2, THEN conjunct2,
      THEN conjunct1, THEN mp, OF h4]
  \<comment> \<open>the downloader returns nothing\<close>
  have h5: "recording_ready empty_env alice \<and> platform_of ''tiktok'' = Some Tiktok
     \<and> downloader empty_env Tiktok (strip tiktok_link) (files init) = (Inr None, files init)"
    by (simp add: empty_env_oracles platform_of_tiktok)
  note c5 = one_outcome_record_per_plain_run [OF empty_env_oracles(1) tiktok_tag,
      where s = init and u = alice, THEN conjunct2, THEN conjunct2, THEN conjunct2,
      THEN conjunct2, THEN conjunct1, THEN mp, OF h5]
  \<comment> \<open>the file is missing\<close>
  have h6: "recording_ready lost_env alice \<and> platform_of ''tiktok'' = Some Tiktok
     \<and> downloader lost_env Tiktok (strip tiktok_link) (files init)
         = (Inr (Some video_file), files init)
     \<and> files init video_file = None"
    by (simp add: recording_ready_envs lost_env_oracles platform_of_tiktok)
  note c6 = one_outcome_record_per_plain_run [OF lost_env_oracles(1) tiktok_tag,
      where s = init and u = alice, THEN conjunct2, THEN conjunct2, THEN conjunct2,
      THEN conjunct2, THEN conjunct2, THEN conjunct1, THEN mp, OF h6]
  \<comment> \<open>success\<close>
  have h7: "recording_ready good_env alice \<and> platform_of ''tiktok'' = Some Tiktok
     \<and> downloader good_env Tiktok (strip tiktok_link) (files init)
         = (Inr (Some video_file), (files init)(video_file \<mapsto> 3 * 1024 * 1024))
     \<and> ((files init)(video_file \<mapsto> 3 * 1024 * 1024)) video_file = Some (3 * 1024 * 1024)
     \<and> (3 * 1024 * 1024 :: nat) \<le> 50 * 1024 * 1024
     \<and> open_fault good_env video_file = None
     \<and> get_donation_keyboard good_env (DONATION_URL good_env)
         = Inr (Some (Keyboard ''https://example.org/donate''))
     \<and> reply_video_fault good_env video_file = None \<and> delete_fault good_env = None"
    using good_env_run_facts(3) g
    by (simp add: recording_ready_envs platform_of_tiktok good_env_oracles)
  note c7 = one_outcome_record_per_plain_run [OF good_env_tiktok tiktok_tag,
      where s = init and u = alice, THEN conjunct2, THEN conjunct2, THEN conjunct2,
      THEN conjunct2, THEN conjunct2, THEN conjunct2, THEN mp, OF h7]
  have r1: "db (snd (handle_url no_profile_env tiktok_link init)) = []"
    using c1 by simp
  have r2: "db (snd (handle_url good_env vimeo_link init))
         = [row alice vimeo_link ''vimeo'' None ''failed''
              (Some ''Couldn't download video from vimeo: https://vimeo.com/1'')]"
    using c2 by (simp add: strip_vimeo_link) (simp add: vimeo_link_def)
  have r3: "db (snd (handle_url private_env tiktok_link init))
         = [row alice tiktok_link ''tiktok'' None ''failed'' (Some ''This account is private'')]"
    using c3 by (simp add: strip_tiktok_link)
  have r4: "db (snd (handle_url broken_env tiktok_link init))
         = [row alice tiktok_link ''tiktok'' None ''failed'' (Some ''Unexpected error: boom'')]"
    using c4 by (simp add: strip_tiktok_link)
  have r5: "db (snd (handle_url empty_env tiktok_link init))
         = [row alice tiktok_link ''tiktok'' None ''failed''
              (Some ''Couldn't download video from tiktok: https://www.tiktok.com/@user/video/123'')]"
    using c5 by (simp add: strip_tiktok_link) (simp add: tiktok_link_def)
  have r6: "db (snd (handle_url lost_env tiktok_link init))
         = [row alice tiktok_link ''tiktok'' None ''failed''
              (Some ''The downloaded file could not be found.'')]"
    using c6 by (simp add: strip_tiktok_link)
  have r7: "fst (handle_url good_env tiktok_link init) = None
     \<and> Reply_video video_file ''Here is your video.'' (Some (Keyboard ''https://example.org/donate''))
         \<in> set (trace (snd (handle_url good_env tiktok_link init)))
     \<and> db (snd (handle_url good_env tiktok_link init))
         = [row alice tiktok_link ''tiktok'' (Some 3) ''success'' None]"
    using c7 by (simp add: strip_tiktok_link g(4))
  from h1 h2 h3 h4 h5 h6 h7 r1 r2 r3 r4 r5 r6 r7
  show ?thesis
    using no_profile_env_oracles(1) good_env_vimeo private_env_oracles(1) broken_env_oracles(1)
      empty_env_oracles(1) lost_env_oracles(1) good_env_tiktok tiktok_tag v(1)
    by blast
qed

text \<open>
  C1, as stated, fails. Every recording site is guarded by \<^verbatim>\<open>if user_db:\<close>, so a run with a
  null user reference, here a successful one, appends no record. And a file over the size
  limit is recorded twice: once by the size check with the measured size, and again, with
  no size, by the \<^verbatim>\<open>except DownloadError\<close> clause that the size check then raises into.
\<close>

theorem one_outcome_record_counterexample:
  "get_url_type no_profile_env (strip tiktok_link) = Some ''tiktok''
   \<and> fst (handle_url no_profile_env tiktok_link init) = None
   \<and> db (snd (handle_url no_profile_env tiktok_link init)) = []
   \<and> get_url_type big_env (strip tiktok_link) = Some ''tiktok''
   \<and> db (snd (handle_url big_env tiktok_link init))
       = [row alice tiktok_link ''tiktok'' (Some 60) ''failed''
            (Some ''Video too large to send (limit: 50MB)''),
          row alice tiktok_link ''tiktok'' None ''failed''
            (Some ''The video is too large to send via Telegram (limit: 50MB).'')]"
proof -
  have t: "''tiktok'' \<noteq> []"
    by simp
  have "db (snd (handle_url no_profile_env tiktok_link init)) = db init"
    using no_profile_env_oracles(5) by (rule null_user_records_nothing)
  moreover have "fst (handle_url no_profile_env tiktok_link init) = None"
    using accepted_run(1) [OF no_profile_env_oracles(1) t no_profile_env_oracles(2)
        platform_of_tiktok no_profile_env_oracles(8), where n = "3 * 1024 * 1024"]
    by (simp add: no_profile_env_oracles)
  moreover have "db (snd (handle_url big_env tiktok_link init))
       = [row alice tiktok_link ''tiktok'' (Some 60) ''failed''
            (Some ''Video too large to send (limit: 50MB)''),
          row alice tiktok_link ''tiktok'' None ''failed''
            (Some ''The video is too large to send via Telegram (limit: 50MB).'')]"
    using too_large_run(3) [OF big_env_oracles(1) t big_env_oracles(2) platform_of_tiktok
        big_env_oracles(8), where n = "60 * 1024 * 1024"]
    by (simp add: big_env_oracles gate_record_fault_def recorded_def init_def strip_tiktok_link)
  ultimately show ?thesis
    using no_profile_env_oracles(1) big_env_oracles(1) by (simp add: init_def)
qed

section \<open>The size limit\<close>

text \<open>
  C3, as stated, fails at the boundary: the size check is \<^verbatim>\<open>file_size > max_size_mb * 1024 * 1024\<close>,
  so a file of exactly 50 MiB is not rejected. It is measured, sent, and recorded as a
  success of 50 MB.
\<close>

theorem gate_boundary_counterexample:
  "get_url_type edge_env (strip tiktok_link) = Some ''tiktok''
   \<and> downloader edge_env Tiktok (strip tiktok_link) (files init)
       = (Inr (Some video_file), (files init)(video_file \<mapsto> 50 * 1024 * 1024))
   \<and> (50 * 1024 * 1024 :: nat) \<ge> 50 * 1024 * 1024
   \<and> fst (handle_url edge_env tiktok_link init) = None
   \<and> Get_size video_file (50 * 1024 * 1024) \<in> set (trace (snd (handle_url edge_env tiktok_link init)))
   \<and> Reply_video video_file ''Here is your video.'' (Some (Keyboard ''https://example.org/donate''))
       \<in> set (trace (snd (handle_url edge_env tiktok_link init)))
   \<and> db (snd (handle_url edge_env tiktok_link init))
       = [row alice tiktok_link ''tiktok'' (Some 50) ''success'' None]"
proof -
  have t: "''tiktok'' \<noteq> []"
    by simp
  have f: "((files init)(video_file \<mapsto> 50 * 1024 * 1024)) video_file = Some (50 * 1024 * 1024)"
    "(50 * 1024 * 1024 :: nat) \<le> 50 * 1024 * 1024"
    by simp_all
  note run = accepted_run [OF edge_env_oracles(1) t edge_env_oracles(2) platform_of_tiktok
      edge_env_oracles(11) f]
  have "fst (handle_url edge_env tiktok_link init) = None"
    by (simp add: run(1) edge_env_oracles)
  moreover have "Get_size video_file (50 * 1024 * 1024)
      \<in> set (trace (snd (handle_url edge_env tiktok_link init)))"
    by (simp add: run(2))
  moreover have "Reply_video video_file ''Here is your video.''
      (Some (Keyboard ''https://example.org/donate''))
      \<in> set (trace (snd (handle_url edge_env tiktok_link init)))"
    by (simp add: run(2) edge_env_oracles(10))
  moreover have "db (snd (handle_url edge_env tiktok_link init))
       = [row alice tiktok_link ''tiktok'' (Some 50) ''success'' None]"
    by (simp add: run(3) edge_env_oracles recorded_def strip_tiktok_link)
  ultimately show ?thesis
    using edge_env_oracles(1,11) by simp
qed

text \<open>
  C3, amended: a downloaded file whose size is strictly greater than 50 MiB is never sent:
  the run adds no \<open>Reply_video\<close> call. Its size is measured. Unless the recording site of
  the size check raises, the run fails with the too-large \<^verbatim>\<open>DownloadError\<close> and ends with the
  too-large template followed by that text. When a user profile was resolved and the
  recorder accepts the row, the first row the run appends is a failed row that carries the
  measured size in megabytes.
\<close>

theorem oversized_file_is_rejected_and_recorded:
  assumes "get_url_type e (strip text) = Some t" and "t \<noteq> []"
      and "reply_text_fault e (PROCESSING_MESSAGE e) = None"
      and "platform_of t = Some pl"
      and "downloader e pl (strip text) (files s) = (Inr (Some p), fs)"
      and "fs p = Some n" and "50 * 1024 * 1024 < n"
  shows "filter is_reply_video (trace (snd (handle_url e text s))) = filter is_reply_video (trace s)
       \<and> Get_size p n \<in> set (trace (snd (handle_url e text s)))
       \<and> (gate_record_fault e (resolved e) (strip text) t (real n / (1024 * 1024)) = None
          \<longrightarrow> Log ERROR (Download_error
                   ''The video is too large to send via Telegram (limit: 50MB).'')
                 \<in> set (trace (snd (handle_url e text s)))
            \<and> last (trace (snd (handle_url e text s)))
                = Edit_text (too_large_message @ [CHR 0x0A, CHR 0x0A] @ ''Details: ''
                    @ ''The video is too large to send via Telegram (limit: 50MB).''))
       \<and> (resolved e = Some u
            \<and> recorder_fault e
                 (row u (strip text) t (Some (real n / (1024 * 1024))) ''failed''
                    (Some ''Video too large to send (limit: 50MB)'')) = None
          \<longrightarrow> (\<exists>rest. db (snd (handle_url e text s))
                        = db s @ row u (strip text) t (Some (real n / (1024 * 1024))) ''failed''
                                  (Some ''Video too large to send (limit: 50MB)'') # rest))"
proof (intro conjI impI)
  note run = too_large_run [OF assms]
  show "filter is_reply_video (trace (snd (handle_url e text s)))
          = filter is_reply_video (trace s)"
    by (simp add: run(2) split: option.splits)
  show "Get_size p n \<in> set (trace (snd (handle_url e text s)))"
    by (simp add: run(2))
  {
    assume g: "gate_record_fault e (resolved e) (strip text) t (real n / (1024 * 1024)) = None"
    show "Log ERROR (Download_error
                   ''The video is too large to send via Telegram (limit: 50MB).'')
                 \<in> set (trace (snd (handle_url e text s)))"
      using g by (simp add: run(2) download_error_events_def)
    show "last (trace (snd (handle_url e text s)))
                = Edit_text (too_large_message @ [CHR 0x0A, CHR 0x0A] @ ''Details: ''
                    @ ''The video is too large to send via Telegram (limit: 50MB).'')"
      using g by (simp add: run(2) download_error_events_def detailed_message_def
          too_large_text_is_classified)
  }
  {
    assume a: "resolved e = Some u
            \<and> recorder_fault e
                 (row u (strip text) t (Some (real n / (1024 * 1024))) ''failed''
                    (Some ''Video too large to send (limit: 50MB)'')) = None"
    then show "\<exists>rest. db (snd (handle_url e text s))
                        = db s @ row u (strip text) t (Some (real n / (1024 * 1024))) ''failed''
                                  (Some ''Video too large to send (limit: 50MB)'') # rest"
      by (simp add: run(3) recorded_def)
  }
qed

theorem oversized_file_is_rejected_and_recorded_witness:
  "get_url_type big_env (strip tiktok_link) = Some ''tiktok''
   \<and> ''tiktok'' \<noteq> []
   \<and> reply_text_fault big_env (PROCESSING_MESSAGE big_env) = None
   \<and> platform_of ''tiktok'' = Some Tiktok
   \<and> downloader big_env Tiktok (strip tiktok_link) (files init)
       = (Inr (Some video_file), (files init)(video_file \<mapsto> 60 * 1024 * 1024))
   \<and> ((files init)(video_file \<mapsto> 60 * 1024 * 1024)) video_file = Some (60 * 1024 * 1024)
   \<and> (50 * 1024 * 1024 :: nat) < 60 * 1024 * 1024
   \<and> gate_record_fault big_env (resolved big_env) (strip tiktok_link) ''tiktok''
        (real (60 * 1024 * 1024) / (1024 * 1024)) = None
   \<and> resolved big_env = Some alice
   \<and> recorder_fault big_env
        (row alice (strip tiktok_link) ''tiktok'' (Some (real (60 * 1024 * 1024) / (1024 * 1024)))
           ''failed'' (Some ''Video too large to send (limit: 50MB)'')) = None
   \<and> filter is_reply_video (trace (snd (handle_url big_env tiktok_link init))) = []
   \<and> Get_size video_file (60 * 1024 * 1024) \<in> set (trace (snd (handle_url big_env tiktok_link init)))
   \<and> Log ERROR (Download_error ''The video is too large to send via Telegram (limit: 50MB).'')
       \<in> set (trace (snd (handle_url big_env tiktok_link init)))
   \<and> (\<exists>rest. db (snd (handle_url big_env tiktok_link init))
          = row alice tiktok_link ''tiktok'' (Some 60) ''failed''
              (Some ''Video too large to send (limit: 50MB)'') # rest)"
proof -
  have t: "''tiktok'' \<noteq> []"
    by simp
  have f: "((files init)(video_file \<mapsto> 60 * 1024 * 1024)) video_file = Some (60 * 1024 * 1024)"
    "(50 * 1024 * 1024 :: nat) < 60 * 1024 * 1024"
    by simp_all
  have g: "gate_record_fault big_env (resolved big_env) (strip tiktok_link) ''tiktok''
        (real (60 * 1024 * 1024) / (1024 * 1024)) = None"
    by (simp add: gate_record_fault_def big_env_oracles)
  have r: "resolved big_env = Some alice
    \<and> recorder_fault big_env
        (row alice (strip tiktok_link) ''tiktok'' (Some (real (60 * 1024 * 1024) / (1024 * 1024)))
           ''failed'' (Some ''Video too large to send (limit: 50MB)'')) = None"
    by (simp add: big_env_oracles)
  note inst = oversized_file_is_rejected_and_recorded [OF big_env_oracles(1) t big_env_oracles(2)
      platform_of_tiktok big_env_oracles(8) f, where u = alice]
  note c1 = inst [THEN conjunct1]
  note c2 = inst [THEN conjunct2, THEN conjunct1]
  note c3 = inst [THEN conjunct2, THEN conjunct2, THEN conjunct1, THEN mp, OF g, THEN conjunct1]
  note c4 = inst [THEN conjunct2, THEN conjunct2, THEN conjunct2, THEN mp, OF r]
  from c1 c2 c3 c4 g r show ?thesis
    using big_env_oracles(1,2,8) platform_of_tiktok
    by (simp add: init_def strip_tiktok_link)
qed

section \<open>Clean-up and recorder failures on the size-check path\<close>

text \<open>
  C2 does not hold of the code. The clean-up (lines 190 to 199) sits at the end of the body
  of the outer \<^verbatim>\<open>try\<close>, so only a run that sent the video and deleted the processing message
  reaches it; neither \<^verbatim>\<open>except\<close> clause removes anything. After the run of a 60 MiB file the
  handler has returned, the file is still there and \<^verbatim>\<open>os.remove\<close> was never called, whereas the
  successful run of a 3 MiB file removes its file.
\<close>

theorem rejected_file_is_left_behind:
  "fst (handle_url big_env tiktok_link init) = None
   \<and> files (snd (handle_url big_env tiktok_link init)) video_file = Some (60 * 1024 * 1024)
   \<and> Os_remove video_file \<notin> set (trace (snd (handle_url big_env tiktok_link init)))
   \<and> fst (handle_url good_env tiktok_link init) = None
   \<and> files (snd (handle_url good_env tiktok_link init)) video_file = None
   \<and> Os_remove video_file \<in> set (trace (snd (handle_url good_env tiktok_link init)))"
proof -
  note big = too_large_run [OF big_env_run_facts(1) tiktok_tag big_env_run_facts(2)
      platform_of_tiktok big_env_run_facts(3,4,5)]
  note good = accepted_run [OF good_env_run_facts(1) tiktok_tag good_env_run_facts(2)
      platform_of_tiktok good_env_run_facts(3,4,5)]
  have g: "gate_record_fault big_env (Some alice) tiktok_link ''tiktok'' 60 = None"
    by (simp add: gate_record_fault_def big_env_oracles)
  have "fst (handle_url big_env tiktok_link init) = None"
    using g by (simp add: big(1) big_env_oracles strip_tiktok_link)
  moreover have "files (snd (handle_url big_env tiktok_link init)) video_file
      = Some (60 * 1024 * 1024)"
    by (simp add: big(4))
  moreover have "Os_remove video_file \<notin> set (trace (snd (handle_url big_env tiktok_link init)))"
    using g
    by (simp add: big(2) big_env_oracles strip_tiktok_link prologue_def lookup_events_def
        download_error_events_def recording_events_def big_env_lookup)
  moreover have "fst (handle_url good_env tiktok_link init) = None"
    by (simp add: good(1) good_env_sends good_env_oracles)
  moreover have "files (snd (handle_url good_env tiktok_link init)) video_file = None"
    by (simp add: good(4) good_env_sends good_env_oracles)
  moreover have "Os_remove video_file \<in> set (trace (snd (handle_url good_env tiktok_link init)))"
    by (simp add: good(2) good_env_sends good_env_oracles cleanup_events_def)
  ultimately show ?thesis
    by simp
qed

text \<open>
  C4 does not hold of the code. The recording call of the size check (lines 122 to 131) is
  the one recording site without a \<^verbatim>\<open>try\<close> of its own. With a working recorder the run of a
  60 MiB file ends with the too-large template; with the recorder down the exception of
  \<^verbatim>\<open>record_download\<close> is caught by \<^verbatim>\<open>except Exception\<close> instead and the user is told of an
  unexpected error. At the guarded site of the success path the same failure is logged and
  the video is delivered.
\<close>

theorem recorder_failure_at_size_check_changes_reply:
  "last (trace (snd (handle_url big_env tiktok_link init)))
     = Edit_text (too_large_message @ [CHR 0x0A, CHR 0x0A] @ ''Details: ''
         @ ''The video is too large to send via Telegram (limit: 50MB).'')
   \<and> last (trace (snd (handle_url db_down_env tiktok_link init)))
       = Edit_text (''Something went wrong.'' @ [CHR 0x0A, CHR 0x0A]
           @ ''An unexpected error occurred. Please try again later.'')
   \<and> Log ERROR (Unexpected_error ''connection lost'')
       \<in> set (trace (snd (handle_url db_down_env tiktok_link init)))
   \<and> fst (handle_url small_db_down_env tiktok_link init) = None
   \<and> Log ERROR (Failed_to_record_successful_download ''connection lost'')
       \<in> set (trace (snd (handle_url small_db_down_env tiktok_link init)))
   \<and> Reply_video video_file ''Here is your video.'' (Some (Keyboard ''https://example.org/donate''))
       \<in> set (trace (snd (handle_url small_db_down_env tiktok_link init)))"
proof -
  note big = too_large_run [OF big_env_run_facts(1) tiktok_tag big_env_run_facts(2)
      platform_of_tiktok big_env_run_facts(3,4,5)]
  have g: "gate_record_fault big_env (Some alice) tiktok_link ''tiktok'' 60 = None"
    by (simp add: gate_record_fault_def big_env_oracles)
  have d: "reply_text_fault db_down_env (PROCESSING_MESSAGE db_down_env) = None"
    "downloader db_down_env Tiktok (strip tiktok_link) (files init)
       = (Inr (Some video_file), (files init)(video_file \<mapsto> 60 * 1024 * 1024))"
    by (simp_all add: db_down_env_oracles)
  note down = too_large_run [OF db_down_env_oracles(1) tiktok_tag d(1) platform_of_tiktok d(2)
      big_env_run_facts(4,5)]
  have h: "gate_record_fault db_down_env (Some alice) tiktok_link ''tiktok'' 60
             = Some ''connection lost''"
    by (simp add: gate_record_fault_def db_down_env_oracles)
  have c: "reply_text_fault small_db_down_env (PROCESSING_MESSAGE small_db_down_env) = None"
    "downloader small_db_down_env Tiktok (strip tiktok_link) (files init)
       = (Inr (Some video_file), (files init)(video_file \<mapsto> 3 * 1024 * 1024))"
    by (simp_all add: small_db_down_env_oracles)
  note small = accepted_run [OF small_db_down_env_oracles(1) tiktok_tag c(1) platform_of_tiktok
      c(2) good_env_run_facts(4,5)]
  have "last (trace (snd (handle_url big_env tiktok_link init)))
     = Edit_text (too_large_message @ [CHR 0x0A, CHR 0x0A] @ ''Details: ''
         @ ''The video is too large to send via Telegram (limit: 50MB).'')"
    using g
    by (simp add: big(2) big_env_oracles strip_tiktok_link download_error_events_def
        detailed_message_def too_large_text_is_classified)
  moreover have "last (trace (snd (handle_url db_down_env tiktok_link init)))
       = Edit_text (''Something went wrong.'' @ [CHR 0x0A, CHR 0x0A]
           @ ''An unexpected error occurred. Please try again later.'')"
    using h
    by (simp add: down(2) db_down_env_oracles strip_tiktok_link unexpected_events_def
        unexpected_reply_def)
  moreover have "Log ERROR (Unexpected_error ''connection lost'')
       \<in> set (trace (snd (handle_url db_down_env tiktok_link init)))"
    using h
    by (simp add: down(2) db_down_env_oracles strip_tiktok_link unexpected_events_def)
  moreover have "fst (handle_url small_db_down_env tiktok_link init) = None"
    by (simp add: small(1) small_db_down_env_oracles)
  moreover have "Log ERROR (Failed_to_record_successful_download ''connection lost'')
       \<in> set (trace (snd (handle_url small_db_down_env tiktok_link init)))"
    by (simp add: small(2) small_db_down_env_oracles recording_events_def)
  moreover have "Reply_video video_file ''Here is your video.''
       (Some (Keyboard ''https://example.org/donate''))
       \<in> set (trace (snd (handle_url small_db_down_env tiktok_link init)))"
    by (simp add: small(2) small_db_down_env_oracles)
  ultimately show ?thesis
    by simp
qed

section \<open>The reply to a failure\<close>

text \<open>
  C6, amended: in a run from an empty trace, whenever the \<^verbatim>\<open>except DownloadError\<close> clause
  runs for a failure text (download, size-check and send failures all reach it, and it logs
  the text), the last call of the run is the edit of the processing message to the friendly
  template of that text, an empty line, \<open>Details: \<close> and the text itself. Whenever the
  \<^verbatim>\<open>except Exception\<close> clause runs, the reply is \<^verbatim>\<open>ERROR_MESSAGE\<close> followed by a fixed
  sentence, whatever the failure text is: the text is not appended.
\<close>

theorem failure_reply_carries_detail:
  assumes "trace s = []"
  shows "(Log ERROR (Download_error m) \<in> set (trace (snd (handle_url e text s)))
          \<longrightarrow> last (trace (snd (handle_url e text s)))
                = Edit_text (user_friendly_message (ERROR_MESSAGE e) m
                    @ [CHR 0x0A, CHR 0x0A] @ ''Details: '' @ m))
       \<and> (Log ERROR (Unexpected_error m) \<in> set (trace (snd (handle_url e text s)))
          \<longrightarrow> last (trace (snd (handle_url e text s)))
                = Edit_text (ERROR_MESSAGE e @ [CHR 0x0A, CHR 0x0A]
                    @ ''An unexpected error occurred. Please try again later.''))"
  using reply_after_handler_log [OF assms, of m e "text"]
  by (simp add: detailed_message_def unexpected_reply_def)

text \<open>
  C6, as stated, fails for the unexpected failure: the reply of the \<^verbatim>\<open>except Exception\<close> clause
  (line 256) is \<^verbatim>\<open>ERROR_MESSAGE\<close> and a fixed sentence. When the downloader raises \<open>boom\<close>,
  the text \<open>boom\<close> is logged and recorded but is no part of the reply.
\<close>

theorem unexpected_failure_reply_counterexample:
  "Log ERROR (Unexpected_error ''boom'')
     \<in> set (trace (snd (handle_url broken_env tiktok_link init)))
   \<and> fst (handle_url broken_env tiktok_link init) = None
   \<and> last (trace (snd (handle_url broken_env tiktok_link init)))
       = Edit_text (''Something went wrong.'' @ [CHR 0x0A, CHR 0x0A]
           @ ''An unexpected error occurred. Please try again later.'')
   \<and> \<not> contains ''boom'' (''Something went wrong.'' @ [CHR 0x0A, CHR 0x0A]
           @ ''An unexpected error occurred. Please try again later.'')"
proof -
  note run = raised_other_run [OF broken_env_oracles(1) tiktok_tag broken_env_run_facts(1)
      platform_of_tiktok broken_env_run_facts(2)]
  have "Log ERROR (Unexpected_error ''boom'')
     \<in> set (trace (snd (handle_url broken_env tiktok_link init)))"
    by (simp add: run(2) handler_marks)
  moreover have "fst (handle_url broken_env tiktok_link init) = None"
    by (simp add: run(1) broken_env_oracles)
  moreover have "last (trace (snd (handle_url broken_env tiktok_link init)))
       = Edit_text (''Something went wrong.'' @ [CHR 0x0A, CHR 0x0A]
           @ ''An unexpected error occurred. Please try again later.'')"
    by (simp add: run(2) handler_events_last unexpected_reply_def broken_env_oracles)
  moreover have "\<not> contains ''boom'' (''Something went wrong.'' @ [CHR 0x0A, CHR 0x0A]
           @ ''An unexpected error occurred. Please try again later.'')"
    by simp
  ultimately show ?thesis
    by blast
qed

theorem failure_reply_carries_detail_witness:
  "trace init = []
   \<and> Log ERROR (Download_error ''The video is too large to send via Telegram (limit: 50MB).'')
       \<in> set (trace (snd (handle_url big_env tiktok_link init)))
   \<and> last (trace (snd (handle_url big_env tiktok_link init)))
       = Edit_text (too_large_message @ [CHR 0x0A, CHR 0x0A] @ ''Details: ''
           @ ''The video is too large to send via Telegram (limit: 50MB).'')
   \<and> Log ERROR (Unexpected_error ''boom'')
       \<in> set (trace (snd (handle_url broken_env tiktok_link init)))
   \<and> last (trace (snd (handle_url broken_env tiktok_link init)))
       = Edit_text (''Something went wrong.'' @ [CHR 0x0A, CHR 0x0A]
           @ ''An unexpected error occurred. Please try again later.'')"
proof -
  let ?tl = "''The video is too large to send via Telegram (limit: 50MB).''"
  have i: "trace init = []"
    by simp
  note big = too_large_run [OF big_env_run_facts(1) tiktok_tag big_env_run_facts(2)
      platform_of_tiktok big_env_run_facts(3,4,5)]
  note broken = raised_other_run [OF broken_env_oracles(1) tiktok_tag broken_env_run_facts(1)
      platform_of_tiktok broken_env_run_facts(2)]
  have g: "gate_record_fault big_env (Some alice) tiktok_link ''tiktok'' 60 = None"
    by (simp add: gate_record_fault_def big_env_oracles)
  have a: "Log ERROR (Download_error ?tl) \<in> set (trace (snd (handle_url big_env tiktok_link init)))"
    using g by (simp add: big(2) big_env_oracles strip_tiktok_link handler_marks)
  have b: "Log ERROR (Unexpected_error ''boom'')
       \<in> set (trace (snd (handle_url broken_env tiktok_link init)))"
    by (simp add: broken(2) handler_marks)
  have "last (trace (snd (handle_url big_env tiktok_link init)))
      = Edit_text (user_friendly_message (ERROR_MESSAGE big_env) ?tl
          @ [CHR 0x0A, CHR 0x0A] @ ''Details: '' @ ?tl)"
    using failure_reply_carries_detail [OF i, of ?tl big_env tiktok_link, THEN conjunct1,
        THEN mp, OF a] .
  moreover have "last (trace (snd (handle_url broken_env tiktok_link init)))
      = Edit_text (ERROR_MESSAGE broken_env @ [CHR 0x0A, CHR 0x0A]
          @ ''An unexpected error occurred. Please try again later.'')"
    using failure_reply_carries_detail [OF i, of "''boom''" broken_env tiktok_link, THEN conjunct2,
        THEN mp, OF b] .
  ultimately show ?thesis
    using i a b by (simp add: too_large_text_is_classified broken_env_oracles)
qed

section \<open>The checks before the send\<close>

text \<open>
  C7: in any run from an empty trace, a call that sends the video is preceded by the
  existence check of the same path with a positive answer and, directly after it, by the
  measurement of its size, which is at most 50 MiB; nothing before the two checks sends a
  video. A run in which the existence check fails sends no video and ends in the
  \<^verbatim>\<open>DownloadError\<close> clause with the file-not-found text, and a run that measures a size above
  50 MiB sends no video.
\<close>

theorem gate_checks_precede_relay:
  assumes "trace s = []"
  shows "(Reply_video p c k \<in> set (trace (snd (handle_url e text s)))
          \<longrightarrow> (\<exists>pre n post. trace (snd (handle_url e text s))
                   = pre @ Path_exists p True # Get_size p n # post
                 \<and> n \<le> 50 * 1024 * 1024 \<and> filter is_reply_video pre = []))
       \<and> (Path_exists q False \<in> set (trace (snd (handle_url e text s)))
          \<longrightarrow> filter is_reply_video (trace (snd (handle_url e text s))) = []
            \<and> Log ERROR (Download_error ''The downloaded file could not be found.'')
                 \<in> set (trace (snd (handle_url e text s))))
       \<and> (Get_size q n' \<in> set (trace (snd (handle_url e text s))) \<and> 50 * 1024 * 1024 < n'
          \<longrightarrow> filter is_reply_video (trace (snd (handle_url e text s))) = [])"
  using relay_after_gate(1) [OF assms, of p c k e "text"]
    relay_after_gate(2) [OF assms, of q e "text"]
    relay_after_gate(3) [OF assms, of q n' e "text"]
  by blast

theorem gate_checks_precede_relay_witness:
  "trace init = []
   \<and> Reply_video video_file ''Here is your video.'' (Some (Keyboard ''https://example.org/donate''))
       \<in> set (trace (snd (handle_url good_env tiktok_link init)))
   \<and> (\<exists>pre n post. trace (snd (handle_url good_env tiktok_link init))
          = pre @ Path_exists video_file True # Get_size video_file n # post
        \<and> n \<le> 50 * 1024 * 1024 \<and> filter is_reply_video pre = [])
   \<and> Path_exists video_file False \<in> set (trace (snd (handle_url lost_env tiktok_link init)))
   \<and> filter is_reply_video (trace (snd (handle_url lost_env tiktok_link init))) = []
   \<and> Log ERROR (Download_error ''The downloaded file could not be found.'')
       \<in> set (trace (snd (handle_url lost_env tiktok_link init)))
   \<and> Get_size video_file (60 * 1024 * 1024) \<in> set (trace (snd (handle_url big_env tiktok_link init)))
   \<and> (50 * 1024 * 1024 :: nat) < 60 * 1024 * 1024
   \<and> filter is_reply_video (trace (snd (handle_url big_env tiktok_link init))) = []"
proof -
  let ?v = "Reply_video video_file ''Here is your video.''
              (Some (Keyboard ''https://example.org/donate''))"
  have i: "trace init = []"
    by simp
  note good = accepted_run [OF good_env_run_facts(1) tiktok_tag good_env_run_facts(2)
      platform_of_tiktok good_env_run_facts(3,4,5)]
  note lost = missing_run [OF lost_env_oracles(1) tiktok_tag lost_env_run_facts(1)
      platform_of_tiktok lost_env_run_facts(2,3)]
  note big = too_large_run [OF big_env_run_facts(1) tiktok_tag big_env_run_facts(2)
      platform_of_tiktok big_env_run_facts(3,4,5)]
  have a: "?v \<in> set (trace (snd (handle_url good_env tiktok_link init)))"
    by (simp add: good(2) good_env_sends)
  have b: "Path_exists video_file False \<in> set (trace (snd (handle_url lost_env tiktok_link init)))"
    by (simp add: lost(2))
  have c: "Get_size video_file (60 * 1024 * 1024)
             \<in> set (trace (snd (handle_url big_env tiktok_link init)))
           \<and> (50 * 1024 * 1024 :: nat) < 60 * 1024 * 1024"
    by (simp add: big(2))
  note t1 = gate_checks_precede_relay [OF i, of video_file "''Here is your video.''"
      "Some (Keyboard ''https://example.org/donate'')" good_env tiktok_link,
      THEN conjunct1, THEN mp, OF a]
  note t2 = gate_checks_precede_relay [OF i, of _ _ _ lost_env tiktok_link video_file,
      THEN conjunct2, THEN conjunct1, THEN mp, OF b]
  note t3 = gate_checks_precede_relay [OF i, of _ _ _ big_env tiktok_link video_file
      "60 * 1024 * 1024", THEN conjunct2, THEN conjunct2, THEN mp, OF c]
  from i a b c t1 t2 t3 show ?thesis
    by blast
qed

end
